theory Spec2Isabelle
  imports Complex_Main "HOL-Library.Sublist"
begin

section \<open>Strings as the uploader uses them\<close>

text \<open>
  Labels and cell texts are Python \<open>str\<close> values. They are modelled as \<open>string\<close>, a
  character being read as the code point of the same number (0 to 255): \<open>is_space\<close> lists
  the code points in that range that \<open>str.strip()\<close> and the regular expression class
  \<open>\s\<close> remove (among them the next-line character \<open>0x85\<close> and the no-break space
  \<open>0xA0\<close>), \<open>lower\<close> is \<open>str.lower()\<close> on that range (the ASCII capitals and the capitals
  \<open>0xC0\<close> to \<open>0xDE\<close> without the multiplication sign \<open>0xD7\<close>), and \<open>contains p s\<close> is the
  Python test \<open>p in s\<close>.
\<close>

definition is_space :: "char \<Rightarrow> bool" where
  "is_space c = (c \<in> set [CHR '' '', CHR 0x09, CHR 0x0A, CHR 0x0B, CHR 0x0C, CHR 0x0D,
                             CHR 0x1C, CHR 0x1D, CHR 0x1E, CHR 0x1F, CHR 0x85, CHR 0xA0])"

definition strip_pred :: "(char \<Rightarrow> bool) \<Rightarrow> string \<Rightarrow> string" where
  "strip_pred P s = rev (dropWhile P (rev (dropWhile P s)))"

definition strip :: "string \<Rightarrow> string" where
  "strip s = strip_pred is_space s"

definition strip_chars :: "string \<Rightarrow> string \<Rightarrow> string" where
  "strip_chars cs s = strip_pred (\<lambda>c. c \<in> set cs) s"

definition upper_chars :: string where
  "upper_chars = ''ABCDEFGHIJKLMNOPQRSTUVWXYZ'' @
     [CHR 0xC0, CHR 0xC1, CHR 0xC2, CHR 0xC3, CHR 0xC4, CHR 0xC5, CHR 0xC6, CHR 0xC7,
      CHR 0xC8, CHR 0xC9, CHR 0xCA, CHR 0xCB, CHR 0xCC, CHR 0xCD, CHR 0xCE, CHR 0xCF,
      CHR 0xD0, CHR 0xD1, CHR 0xD2, CHR 0xD3, CHR 0xD4, CHR 0xD5, CHR 0xD6,
      CHR 0xD8, CHR 0xD9, CHR 0xDA, CHR 0xDB, CHR 0xDC, CHR 0xDD, CHR 0xDE]"

definition lower_chars :: string where
  "lower_chars = ''abcdefghijklmnopqrstuvwxyz'' @
     [CHR 0xE0, CHR 0xE1, CHR 0xE2, CHR 0xE3, CHR 0xE4, CHR 0xE5, CHR 0xE6, CHR 0xE7,
      CHR 0xE8, CHR 0xE9, CHR 0xEA, CHR 0xEB, CHR 0xEC, CHR 0xED, CHR 0xEE, CHR 0xEF,
      CHR 0xF0, CHR 0xF1, CHR 0xF2, CHR 0xF3, CHR 0xF4, CHR 0xF5, CHR 0xF6,
      CHR 0xF8, CHR 0xF9, CHR 0xFA, CHR 0xFB, CHR 0xFC, CHR 0xFD, CHR 0xFE]"

definition lower_char :: "char \<Rightarrow> char" where
  "lower_char c = (case map_of (zip upper_chars lower_chars) c of Some l \<Rightarrow> l | None \<Rightarrow> c)"

definition lower :: "string \<Rightarrow> string" where
  "lower s = map lower_char s"

fun contains :: "string \<Rightarrow> string \<Rightarrow> bool" where
  "contains p [] = (p = [])"
| "contains p (c # cs) = (prefix p (c # cs) \<or> contains p cs)"

section \<open>Header reconciliation (\<open>process_cin7_excel_data\<close>, multi-level columns)\<close>

text \<open>
  The loop over \<open>working_df.columns\<close> of a two-level header. A column label is the pair
  \<open>(col[0], col[1])\<close>; a Python string is truthy exactly when it is not empty, and the
  test is made on the labels as they are, before any trimming.
\<close>

definition reconcile :: "string \<times> string \<Rightarrow> string" where
  "reconcile col =
     (if fst col \<noteq> [] \<and> snd col \<noteq> [] \<and> strip (fst col) \<noteq> strip (snd col)
      then strip_chars ''_'' (fst col @ ''_'' @ snd col)
      else strip (if snd col \<noteq> [] then snd col else fst col))"

definition reconcile_columns :: "(string \<times> string) list \<Rightarrow> string list" where
  "reconcile_columns cols = map reconcile cols"

section \<open>Tables, cells and the library primitives\<close>

text \<open>
  A pandas column is either an object column, whose cells are strings, numbers or the
  missing value \<open>nan\<close>, or a numeric column (dtype \<open>float64\<close> or \<open>int64\<close>). A table
  is the list of its labelled columns, in column order. The uploader never looks inside
  a number itself: it only hands numbers to pandas and to Python builtins. Those library
  operations are the fields of \<open>prims\<close>, and every function below takes them as the
  argument \<open>P\<close>, so that the theorems hold for whatever the library computes.
\<close>

datatype 'n cell = Str string | Num 'n | NaN

datatype 'n column = ObjCol "'n cell list" | NumCol "'n list"

type_synonym 'n frame = "(string \<times> 'n column) list"

datatype int_result = IntOk int | IntValueError | IntOverflowError

record 'n prims =
  num_str :: "'n \<Rightarrow> string"  \<comment> \<open>\<open>str(x)\<close> of a number\<close>
  to_numeric :: "string \<Rightarrow> 'n option"  \<comment> \<open>\<open>pd.to_numeric\<close> on one text, \<open>None\<close> for \<open>NaN\<close>\<close>
  num_zero :: "'n"  \<comment> \<open>the \<open>0\<close> of \<open>fillna(0)\<close>\<close>
  num_sub :: "'n \<Rightarrow> 'n \<Rightarrow> 'n"  \<comment> \<open>subtraction of two numbers\<close>
  astype_int :: "'n \<Rightarrow> int option"  \<comment> \<open>\<open>astype(int)\<close>, \<open>None\<close> where it raises\<close>
  py_float :: "string \<Rightarrow> 'n option"  \<comment> \<open>\<open>float(s)\<close>, \<open>None\<close> for \<open>ValueError\<close>\<close>
  py_int :: "'n \<Rightarrow> int_result"  \<comment> \<open>\<open>int(x)\<close> of a float\<close>
  num_of_int :: "int \<Rightarrow> 'n"  \<comment> \<open>the number an integer denotes, for \<open>x == int(x)\<close>\<close>
  num_isna :: "'n \<Rightarrow> bool"  \<comment> \<open>whether a number is the missing value, for \<open>fillna\<close>\<close>

fun col_cells :: "'n column \<Rightarrow> 'n cell list" where
  "col_cells (ObjCol cs) = cs"
| "col_cells (NumCol vs) = map Num vs"

definition col_len :: "'n column \<Rightarrow> nat" where
  "col_len c = length (col_cells c)"

definition nrows :: "'n frame \<Rightarrow> nat" where
  "nrows df = (case df of [] \<Rightarrow> 0 | (l, c) # rest \<Rightarrow> col_len c)"

definition wf_frame :: "'n frame \<Rightarrow> bool" where
  "wf_frame df = (\<forall>lc \<in> set df. col_len (snd lc) = nrows df)"

definition row_at :: "'n frame \<Rightarrow> nat \<Rightarrow> (string \<times> 'n cell) list" where
  "row_at df i = map (\<lambda>lc. (fst lc, col_cells (snd lc) ! i)) df"

definition rows_of :: "'n frame \<Rightarrow> (string \<times> 'n cell) list list" where
  "rows_of df = map (row_at df) [0..<nrows df]"

definition cell_str :: "'n prims \<Rightarrow> 'n cell \<Rightarrow> string" where
  "cell_str P v = (case v of Str s \<Rightarrow> s | Num x \<Rightarrow> num_str P x | NaN \<Rightarrow> ''nan'')"

definition numeric_columns :: "string list" where
  "numeric_columns = [''SOH'', ''Incoming NOT paid'', ''Open Sales'', ''Grand Total'', ''Available'']"

definition numeric_keywords :: "string list" where
  "numeric_keywords = [''stock qty'', ''stock value'', ''qty'', ''total'', ''incoming'', ''sales'']"

definition has_keyword :: "string \<Rightarrow> bool" where
  "has_keyword c = list_ex (\<lambda>keyword. contains keyword (lower c)) numeric_keywords"

definition all_numeric_columns :: "string list \<Rightarrow> string list" where
  "all_numeric_columns df_columns = remdups (numeric_columns @ filter has_keyword df_columns)"

section \<open>The sync engine: configuration, environment and state\<close>

text \<open>
  \<open>upload_config\<close> holds the batch size and retry budget (set from spin boxes, so natural
  numbers) and the two delays. The remote service and the cancel button belong to the
  environment: \<open>cancel_flag E n\<close> is what the \<open>n\<close>-th read of \<open>self.upload_cancelled\<close>
  returns, and \<open>get_sheet_result\<close>, \<open>delete_rows_result\<close>, \<open>add_rows_result\<close> give the
  outcome of the \<open>n\<close>-th call of each remote operation. A call that fails leaves the
  remote sheet as it was. The state records the remote rows and everything the engine
  did: reads of the flag, remote calls with their arguments, sleeps and progress events.
\<close>

record config =
  batch_size :: nat
  max_retries :: nat
  retry_delay :: rat
  rate_limit_delay :: rat

datatype response = Ok | Timeout | ServiceError

record env =
  cancel_flag :: "nat \<Rightarrow> bool"
  get_sheet_result :: "nat \<Rightarrow> response"
  delete_rows_result :: "nat \<Rightarrow> response"
  add_rows_result :: "nat \<Rightarrow> response"

record 'r sync_state =
  remote :: "(nat \<times> 'r) list"
  next_id :: nat
  flag_reads :: nat
  get_calls :: nat
  delete_log :: "(nat list \<times> response) list"
  add_log :: "('r list \<times> response) list"
  sleeps :: "rat list"
  uploaded_rows :: nat
  progress :: "(nat \<times> nat) list"

definition sleep :: "rat \<Rightarrow> 'r sync_state \<Rightarrow> 'r sync_state" where
  "sleep d st = st\<lparr>sleeps := sleeps st @ [d]\<rparr>"

definition read_flag :: "env \<Rightarrow> 'r sync_state \<Rightarrow> bool \<times> 'r sync_state" where
  "read_flag E st = (cancel_flag E (flag_reads st), st\<lparr>flag_reads := Suc (flag_reads st)\<rparr>)"

section \<open>Clearing (\<open>clear_smartsheet_data_enhanced\<close>)\<close>

datatype get_status = GotSheet | GetRaised | SheetUnbound

text \<open>
  The retry loop around \<open>get_sheet\<close>, over the attempts \<open>range(max_retries)\<close>. With an
  empty range the loop body never runs and the name \<open>sheet\<close> stays unbound.
\<close>

fun get_sheet_retry :: "env \<Rightarrow> config \<Rightarrow> nat list \<Rightarrow> 'r sync_state \<Rightarrow> get_status \<times> 'r sync_state" where
  "get_sheet_retry E C [] st = (SheetUnbound, st)"
| "get_sheet_retry E C (attempt # rest) st =
     (let r = get_sheet_result E (get_calls st);
          st1 = st\<lparr>get_calls := Suc (get_calls st)\<rparr>
      in if r = Ok then (GotSheet, st1)
         else if Suc attempt = max_retries C then (GetRaised, st1)
         else get_sheet_retry E C rest (sleep (retry_delay C) st1))"

text \<open>
  The retry loop around \<open>delete_rows\<close> for one batch. The result is \<open>False\<close> when the
  last attempt re-raises, and \<open>True\<close> when the loop is left by \<open>break\<close> or runs out.
\<close>

fun delete_retry :: "env \<Rightarrow> config \<Rightarrow> nat list \<Rightarrow> nat list \<Rightarrow> 'r sync_state \<Rightarrow> bool \<times> 'r sync_state" where
  "delete_retry E C batch_ids [] st = (True, st)"
| "delete_retry E C batch_ids (attempt # rest) st =
     (let r = delete_rows_result E (length (delete_log st));
          st1 = st\<lparr>delete_log := delete_log st @ [(batch_ids, r)]\<rparr>
      in if r = Ok
         then (True, st1\<lparr>remote := filter (\<lambda>row. fst row \<notin> set batch_ids) (remote st1)\<rparr>)
         else if Suc attempt = max_retries C then (False, st1)
         else delete_retry E C batch_ids rest (sleep (retry_delay C) st1))"

datatype clear_status = ClearDone | ClearNothing | ClearCancelled | ClearRaised

definition slice :: "nat \<Rightarrow> nat \<Rightarrow> 'a list \<Rightarrow> 'a list" where
  "slice start stop xs = take (stop - start) (drop start xs)"

fun clear_batches :: "env \<Rightarrow> config \<Rightarrow> nat list \<Rightarrow> nat \<Rightarrow> nat list \<Rightarrow> 'r sync_state \<Rightarrow> clear_status \<times> 'r sync_state" where
  "clear_batches E C row_ids total_batches [] st = (ClearDone, st)"
| "clear_batches E C row_ids total_batches (batch_num # rest) st =
     (case read_flag E st of
        (True, st1) \<Rightarrow> (ClearCancelled, st1)
      | (False, st1) \<Rightarrow>
          (let start_idx = batch_num * 400;
               end_idx = min ((batch_num + 1) * 400) (length row_ids);
               batch_ids = slice start_idx end_idx row_ids
           in case delete_retry E C batch_ids [0..<max_retries C] st1 of
                (False, st2) \<Rightarrow> (ClearRaised, st2)
              | (True, st2) \<Rightarrow>
                  clear_batches E C row_ids total_batches rest
                    (if batch_num + 1 < total_batches then sleep (rate_limit_delay C) st2 else st2)))"

definition clear_smartsheet_data_enhanced :: "env \<Rightarrow> config \<Rightarrow> 'r sync_state \<Rightarrow> clear_status \<times> 'r sync_state" where
  "clear_smartsheet_data_enhanced E C st =
     (case get_sheet_retry E C [0..<max_retries C] st of
        (GotSheet, st1) \<Rightarrow>
          (if remote st1 = [] then (ClearNothing, st1)
           else let row_ids = map fst (remote st1);
                    total_batches = (length row_ids + 400 - 1) div 400
                in clear_batches E C row_ids total_batches [0..<total_batches] st1)
      | (other, st1) \<Rightarrow> (ClearRaised, st1))"

section \<open>Uploading (\<open>upload_data_enhanced\<close>)\<close>

datatype py_exception = OverflowError | ZeroDivisionError

datatype 'n remote_value = RInt int | RFloat 'n | RStr string

type_synonym 'n remote_row = "(nat \<times> 'n remote_value) list"

text \<open>
  \<open>column_map\<close> is the dictionary comprehension over the remote columns (a later
  column of the same title overwrites an earlier one). \<open>make_cell_value\<close> is the choice
  of \<open>cell.value\<close>: in a numeric column the text is read by \<open>float\<close>; \<open>ValueError\<close> is
  caught and falls back to the text, \<open>OverflowError\<close> (from \<open>int\<close> of an infinity) is
  not caught there.
\<close>

definition column_map :: "(string \<times> nat) list \<Rightarrow> string \<Rightarrow> nat option" where
  "column_map remote_columns = map_of (rev remote_columns)"

definition make_cell_value :: "'n prims \<Rightarrow> bool \<Rightarrow> string \<Rightarrow> py_exception + 'n remote_value" where
  "make_cell_value P is_numeric s =
     (if is_numeric then
        (case py_float P (strip s) of
           None \<Rightarrow> Inr (RStr (strip s))
         | Some x \<Rightarrow>
             (case py_int P x of
                IntOk i \<Rightarrow> Inr (if x = num_of_int P i then RInt i else RFloat x)
              | IntValueError \<Rightarrow> Inr (RStr (strip s))
              | IntOverflowError \<Rightarrow> Inl OverflowError))
      else Inr (RStr (strip s)))"

definition cell_wanted :: "'n prims \<Rightarrow> (string \<Rightarrow> nat option) \<Rightarrow> string \<times> 'n cell \<Rightarrow> bool" where
  "cell_wanted P cm item =
     (cm (fst item) \<noteq> None \<and> strip (cell_str P (snd item)) \<noteq> [] \<and> cell_str P (snd item) \<noteq> ''nan'')"

fun build_cells :: "'n prims \<Rightarrow> (string \<Rightarrow> nat option) \<Rightarrow> string list \<Rightarrow> (string \<times> 'n cell) list \<Rightarrow> py_exception + 'n remote_row" where
  "build_cells P cm num_cols [] = Inr []"
| "build_cells P cm num_cols (item # rest) =
     (if cell_wanted P cm item
      then (case make_cell_value P (fst item \<in> set num_cols) (cell_str P (snd item)) of
              Inl e \<Rightarrow> Inl e
            | Inr v \<Rightarrow>
                (case build_cells P cm num_cols rest of
                   Inl e \<Rightarrow> Inl e
                 | Inr cells \<Rightarrow> Inr ((the (cm (fst item)), v) # cells)))
      else build_cells P cm num_cols rest)"

fun build_rows :: "'n prims \<Rightarrow> (string \<Rightarrow> nat option) \<Rightarrow> string list \<Rightarrow> (string \<times> 'n cell) list list \<Rightarrow> py_exception + 'n remote_row list" where
  "build_rows P cm num_cols [] = Inr []"
| "build_rows P cm num_cols (row # rest) =
     (case build_cells P cm num_cols row of
        Inl e \<Rightarrow> Inl e
      | Inr new_row \<Rightarrow>
          (case build_rows P cm num_cols rest of
             Inl e \<Rightarrow> Inl e
           | Inr rows_to_add \<Rightarrow> Inr (if new_row \<noteq> [] then new_row # rows_to_add else rows_to_add)))"

datatype add_status = Added | AddCancelled | AddRaised | AddNotTried

definition add_rows_ok :: "'r list \<Rightarrow> 'r sync_state \<Rightarrow> 'r sync_state" where
  "add_rows_ok rows st =
     st\<lparr>remote := remote st @ zip [next_id st ..< next_id st + length rows] rows,
        next_id := next_id st + length rows\<rparr>"

text \<open>
  The retry loop around \<open>add_rows\<close> for one batch: the flag is read before every
  attempt; a time-out and any other exception are handled alike; the last attempt
  re-raises. \<open>AddNotTried\<close> is the loop running out without success.
\<close>

fun add_rows_retry :: "env \<Rightarrow> config \<Rightarrow> 'r list \<Rightarrow> nat list \<Rightarrow> 'r sync_state \<Rightarrow> add_status \<times> 'r sync_state" where
  "add_rows_retry E C rows_to_add [] st = (AddNotTried, st)"
| "add_rows_retry E C rows_to_add (attempt # rest) st =
     (case read_flag E st of
        (True, st1) \<Rightarrow> (AddCancelled, st1)
      | (False, st1) \<Rightarrow>
          (let r = add_rows_result E (length (add_log st1));
               st2 = st1\<lparr>add_log := add_log st1 @ [(rows_to_add, r)]\<rparr>
           in case r of
                Ok \<Rightarrow> (Added, add_rows_ok rows_to_add st2)
              | Timeout \<Rightarrow>
                  (if attempt + 1 < max_retries C
                   then add_rows_retry E C rows_to_add rest
                          (sleep (retry_delay C * of_nat (attempt + 1)) st2)
                   else (AddRaised, st2))
              | ServiceError \<Rightarrow>
                  (if attempt + 1 < max_retries C
                   then add_rows_retry E C rows_to_add rest
                          (sleep (retry_delay C * of_nat (attempt + 1)) st2)
                   else (AddRaised, st2))))"

fun upload_batches :: "'n prims \<Rightarrow> env \<Rightarrow> config \<Rightarrow> (string \<Rightarrow> nat option) \<Rightarrow> 'n frame \<Rightarrow> nat \<Rightarrow> nat list \<Rightarrow>
    'n remote_row sync_state \<Rightarrow> bool \<times> 'n remote_row sync_state" where
  "upload_batches P E C cm df total_batches [] st = (True, st)"
| "upload_batches P E C cm df total_batches (batch_num # rest) st =
     (case read_flag E st of
        (True, st1) \<Rightarrow> (False, st1)
      | (False, st1) \<Rightarrow>
          (let start_idx = batch_num * batch_size C;
               end_idx = min ((batch_num + 1) * batch_size C) (nrows df);
               batch_df = slice start_idx end_idx (rows_of df)
           in case build_rows P cm (all_numeric_columns (map fst df)) batch_df of
                Inl e \<Rightarrow> (False, st1)
              | Inr rows_to_add \<Rightarrow>
                  (case add_rows_retry E C rows_to_add [0..<max_retries C] st1 of
                     (Added, st2) \<Rightarrow>
                       (let st3 = st2\<lparr>uploaded_rows := uploaded_rows st2 + length rows_to_add\<rparr>;
                            st4 = st3\<lparr>progress := progress st3 @ [(uploaded_rows st3, nrows df)]\<rparr>
                        in upload_batches P E C cm df total_batches rest
                             (if batch_num + 1 < total_batches
                              then sleep (rate_limit_delay C) st4 else st4))
                   | (other, st2) \<Rightarrow> (False, st2))))"

definition upload_data_enhanced :: "'n prims \<Rightarrow> env \<Rightarrow> config \<Rightarrow> (string \<times> nat) list \<Rightarrow> 'n frame \<Rightarrow>
    'n remote_row sync_state \<Rightarrow> bool \<times> 'n remote_row sync_state" where
  "upload_data_enhanced P E C remote_columns df st =
     (if batch_size C = 0 then (False, st)
      else let total_batches = (nrows df + batch_size C - 1) div batch_size C
           in upload_batches P E C (column_map remote_columns) df total_batches
                [0..<total_batches] (st\<lparr>uploaded_rows := 0\<rparr>))"

section \<open>The worker (\<open>upload_process\<close> in \<open>start_upload_threaded\<close>)\<close>

text \<open>
  \<open>sync_steps\<close> is steps 3 and 4 of the worker: clear when overwrite mode is on, upload,
  and report. \<open>Failure\<close> is the message \<open>Upload failed\<close>; \<open>FatalError\<close> is the handler of
  an exception that leaves the worker, which is where an exception raised by the clearing
  ends. \<open>upload_process\<close> is the whole worker after the table has been processed: it
  returns at once when there is no table or the table is empty (\<open>NoData\<close>), then waits for
  the confirmation. \<open>confirmation k\<close> is what the \<open>k\<close>-th read of
  \<open>self.confirmation_result\<close> returns, and \<open>polls\<close> is the number of polls of a tenth of a
  second that fit before \<open>wait_time\<close> reaches the 30 seconds (it is left open, since
  \<open>wait_time\<close> is a sum of floats). A cancellation seen while waiting ends the worker
  without a message (\<open>CancelledWaiting\<close>); a result other than \<open>True\<close> after the wait ends
  it with the message of line 713 (\<open>Declined\<close>).
\<close>

datatype outcome =
  Success nat | Cancelled | Failure | FatalError | NoData | Declined | CancelledWaiting

definition report :: "env \<Rightarrow> bool \<Rightarrow> nat \<Rightarrow> 'r sync_state \<Rightarrow> outcome \<times> 'r sync_state" where
  "report E success total_rows st =
     (if success
      then (case read_flag E st of
              (False, st1) \<Rightarrow> (Success total_rows, st1)
            | (True, st1) \<Rightarrow>
                (case read_flag E st1 of
                   (True, st2) \<Rightarrow> (Cancelled, st2)
                 | (False, st2) \<Rightarrow> (Failure, st2)))
      else (case read_flag E st of
              (True, st1) \<Rightarrow> (Cancelled, st1)
            | (False, st1) \<Rightarrow> (Failure, st1)))"

definition sync_steps :: "'n prims \<Rightarrow> env \<Rightarrow> config \<Rightarrow> bool \<Rightarrow> (string \<times> nat) list \<Rightarrow> 'n frame \<Rightarrow>
    'n remote_row sync_state \<Rightarrow> outcome \<times> 'n remote_row sync_state" where
  "sync_steps P E C overwrite remote_columns df st =
     (case (if overwrite then clear_smartsheet_data_enhanced E C st else (ClearNothing, st)) of
        (ClearRaised, st1) \<Rightarrow> (FatalError, st1)
      | (cleared, st1) \<Rightarrow>
          (case upload_data_enhanced P E C remote_columns df st1 of
             (success, st2) \<Rightarrow> report E success (nrows df) st2))"

definition frame_empty :: "'n frame \<Rightarrow> bool" where
  "frame_empty df = (df = [] \<or> nrows df = 0)"

datatype wait_status = Confirmed | NotConfirmed | CancelSeen

fun confirmation_wait :: "env \<Rightarrow> (nat \<Rightarrow> bool option) \<Rightarrow> nat \<Rightarrow> nat \<Rightarrow> 'r sync_state \<Rightarrow>
    wait_status \<times> 'r sync_state" where
  "confirmation_wait E confirmation 0 k st =
     (if confirmation (Suc k) = Some True then Confirmed else NotConfirmed, st)"
| "confirmation_wait E confirmation (Suc polls) k st =
     (if confirmation k \<noteq> None
      then (if confirmation (Suc k) = Some True then Confirmed else NotConfirmed, st)
      else (case read_flag E (sleep (1 / 10) st) of
              (True, st1) \<Rightarrow> (CancelSeen, st1)
            | (False, st1) \<Rightarrow> confirmation_wait E confirmation polls (Suc k) st1))"

definition upload_process :: "'n prims \<Rightarrow> env \<Rightarrow> config \<Rightarrow> bool \<Rightarrow> (string \<times> nat) list \<Rightarrow>
    'n frame option \<Rightarrow> (nat \<Rightarrow> bool option) \<Rightarrow> nat \<Rightarrow>
    'n remote_row sync_state \<Rightarrow> outcome \<times> 'n remote_row sync_state" where
  "upload_process P E C overwrite remote_columns processed_df confirmation polls st =
     (case processed_df of
        None \<Rightarrow> (NoData, st)
      | Some df \<Rightarrow>
          if frame_empty df then (NoData, st)
          else (case confirmation_wait E confirmation polls 0 st of
                  (CancelSeen, st1) \<Rightarrow> (CancelledWaiting, st1)
                | (NotConfirmed, st1) \<Rightarrow> (Declined, st1)
                | (Confirmed, st1) \<Rightarrow> sync_steps P E C overwrite remote_columns df st1))"

section \<open>One reading of the library primitives\<close>

text \<open>
  Witnesses and counterexamples need numbers that compute. \<open>py_prims\<close> is a reading of
  the primitives: a number is a finite value, an infinity or \<open>nan\<close>. \<open>parse_number\<close> reads
  a text as \<open>pd.to_numeric\<close> does: blanks around it are skipped, then come an optional
  sign, digits with an optional point, and an optional exponent, or one of the spellings
  of infinity; every other text (a thousands separator or a letter among the digits, the
  empty text) gives \<open>None\<close>. \<open>parse_float\<close> reads a text as \<open>float\<close> does: the same, after
  \<open>strip\<close>, with \<open>nan\<close> as a value and with single underscores between digits.
  \<open>float_repr\<close> prints a finite decimal the way \<open>repr\<close> prints the float it denotes
  (exponent notation below \<open>1e-4\<close> and from \<open>1e16\<close> on); \<open>show_int\<close> is \<open>str\<close> of an
  integer; \<open>trunc\<close> rounds toward zero, as \<open>astype(int)\<close> and \<open>int\<close> do. A finite value is
  taken exactly, so the rounding and the overflow of \<open>float64\<close> arithmetic are not part
  of this reading. The theorems do not depend on it: they are stated for arbitrary
  primitives.
\<close>

definition digit_chars :: string where
  "digit_chars = ''0123456789''"

definition is_digit :: "char \<Rightarrow> bool" where
  "is_digit c = (c \<in> set digit_chars)"

definition digit_val :: "char \<Rightarrow> nat" where
  "digit_val c = length (takeWhile (\<lambda>d. d \<noteq> c) digit_chars)"

definition digits_val :: "string \<Rightarrow> nat" where
  "digits_val s = foldl (\<lambda>n c. 10 * n + digit_val c) 0 s"

definition digit_char :: "nat \<Rightarrow> char" where
  "digit_char d = digit_chars ! d"

fun show_nat :: "nat \<Rightarrow> string" where
  "show_nat n = (if n < 10 then [digit_char n] else show_nat (n div 10) @ [digit_char (n mod 10)])"

declare show_nat.simps [simp del]

definition show_int :: "int \<Rightarrow> string" where
  "show_int i = (if i < 0 then CHR ''-'' # show_nat (nat (- i)) else show_nat (nat i))"

datatype pynum = Fin real | PosInf | NegInf | NotANumber

definition parse_unsigned :: "string \<Rightarrow> real option" where
  "parse_unsigned s =
     (let ip = takeWhile is_digit s; rest = dropWhile is_digit s
      in case rest of
           [] \<Rightarrow> if ip = [] then None else Some (of_nat (digits_val ip))
         | c # fp \<Rightarrow>
             if c = CHR ''.'' \<and> list_all is_digit fp \<and> (ip \<noteq> [] \<or> fp \<noteq> [])
             then Some (of_nat (digits_val (ip @ fp)) / 10 ^ length fp)
             else None)"

definition is_exp_char :: "char \<Rightarrow> bool" where
  "is_exp_char c = (c = CHR ''e'' \<or> c = CHR ''E'')"

definition parse_digits :: "string \<Rightarrow> int option" where
  "parse_digits s = (if s \<noteq> [] \<and> list_all is_digit s then Some (int (digits_val s)) else None)"

definition parse_exponent :: "string \<Rightarrow> int option" where
  "parse_exponent s =
     (case s of
        [] \<Rightarrow> None
      | c # cs \<Rightarrow>
          if c = CHR ''-'' then map_option uminus (parse_digits cs)
          else if c = CHR ''+'' then parse_digits cs
          else parse_digits s)"

definition scale10 :: "real \<Rightarrow> int \<Rightarrow> real" where
  "scale10 m e = (if 0 \<le> e then m * 10 ^ nat e else m / 10 ^ nat (- e))"

definition with_exponent :: "real option \<Rightarrow> int option \<Rightarrow> real option" where
  "with_exponent m e =
     (case m of None \<Rightarrow> None
      | Some x \<Rightarrow> (case e of None \<Rightarrow> None | Some k \<Rightarrow> Some (scale10 x k)))"

definition parse_mantissa_exp :: "string \<Rightarrow> real option" where
  "parse_mantissa_exp s =
     (case dropWhile (\<lambda>c. \<not> is_exp_char c) s of
        [] \<Rightarrow> parse_unsigned s
      | c # ex \<Rightarrow>
          with_exponent (parse_unsigned (takeWhile (\<lambda>c. \<not> is_exp_char c) s)) (parse_exponent ex))"

definition parse_decimal :: "string \<Rightarrow> real option" where
  "parse_decimal s =
     (case s of
        [] \<Rightarrow> None
      | c # cs \<Rightarrow>
          if c = CHR ''-'' then map_option uminus (parse_mantissa_exp cs)
          else if c = CHR ''+'' then parse_mantissa_exp cs
          else parse_mantissa_exp s)"

definition parse_plain :: "string \<Rightarrow> pynum option" where
  "parse_plain s =
     (if lower s \<in> set [''inf'', ''+inf'', ''infinity'', ''+infinity''] then Some PosInf
      else if lower s \<in> set [''-inf'', ''-infinity''] then Some NegInf
      else map_option Fin (parse_decimal s))"

definition is_c_space :: "char \<Rightarrow> bool" where
  "is_c_space c = (c \<in> set [CHR '' '', CHR 0x09, CHR 0x0A, CHR 0x0B, CHR 0x0C, CHR 0x0D])"

definition parse_number :: "string \<Rightarrow> pynum option" where
  "parse_number s = parse_plain (strip_pred is_c_space s)"

fun frac_digits :: "nat \<Rightarrow> real \<Rightarrow> nat" where
  "frac_digits 0 r = 0"
| "frac_digits (Suc fuel) r = (if r = of_int \<lfloor>r\<rfloor> then 0 else Suc (frac_digits fuel (r * 10)))"

definition pad_zeros :: "nat \<Rightarrow> string \<Rightarrow> string" where
  "pad_zeros k s = replicate (k - length s) (CHR ''0'') @ s"

definition sci_notation :: "string \<Rightarrow> int \<Rightarrow> string" where
  "sci_notation ds e =
     (let sig = rev (dropWhile (\<lambda>c. c = CHR ''0'') (rev ds))
      in hd sig # (if tl sig = [] then [] else CHR ''.'' # tl sig) @ ''e'' @
         (if e < 0 then ''-'' else ''+'') @ pad_zeros 2 (show_nat (nat \<bar>e\<bar>)))"

definition repr_body :: "string \<Rightarrow> nat \<Rightarrow> nat \<Rightarrow> string" where
  "repr_body ds m k =
     (if 16 \<le> int (length ds) - 1 - int k \<or> int (length ds) - 1 - int k \<le> - 5
      then sci_notation ds (int (length ds) - 1 - int k)
      else if k = 0 then ds @ ''.0''
      else show_nat (m div 10 ^ k) @ ''.'' @ pad_zeros k (show_nat (m mod 10 ^ k)))"

definition repr_scaled :: "real \<Rightarrow> nat \<Rightarrow> string" where
  "repr_scaled a k = repr_body (show_nat (nat \<lfloor>a * 10 ^ k\<rfloor>)) (nat \<lfloor>a * 10 ^ k\<rfloor>) k"

definition float_repr :: "real \<Rightarrow> string" where
  "float_repr r =
     (if r = 0 then ''0.0''
      else (if r < 0 then ''-'' else []) @ repr_scaled \<bar>r\<bar> (frac_digits 400 \<bar>r\<bar>))"

definition trunc :: "real \<Rightarrow> int" where
  "trunc r = (if r < 0 then - \<lfloor>- r\<rfloor> else \<lfloor>r\<rfloor>)"

fun fl_sub :: "pynum \<Rightarrow> pynum \<Rightarrow> pynum" where
  "fl_sub (Fin a) (Fin b) = Fin (a - b)"
| "fl_sub NotANumber y = NotANumber"
| "fl_sub x NotANumber = NotANumber"
| "fl_sub PosInf PosInf = NotANumber"
| "fl_sub NegInf NegInf = NotANumber"
| "fl_sub PosInf y = PosInf"
| "fl_sub NegInf y = NegInf"
| "fl_sub (Fin a) PosInf = NegInf"
| "fl_sub (Fin a) NegInf = PosInf"

definition pynum_str :: "pynum \<Rightarrow> string" where
  "pynum_str x = (case x of Fin r \<Rightarrow> float_repr r | PosInf \<Rightarrow> ''inf'' | NegInf \<Rightarrow> ''-inf''
                  | NotANumber \<Rightarrow> ''nan'')"

definition pynum_astype_int :: "pynum \<Rightarrow> int option" where
  "pynum_astype_int x = (case x of Fin r \<Rightarrow> Some (trunc r) | PosInf \<Rightarrow> None | NegInf \<Rightarrow> None
                         | NotANumber \<Rightarrow> None)"

fun underscores_ok :: "char \<Rightarrow> string \<Rightarrow> bool" where
  "underscores_ok p [] = True"
| "underscores_ok p (c # cs) =
     (if c = CHR ''_''
      then is_digit p \<and> (case cs of [] \<Rightarrow> False | d # ds \<Rightarrow> is_digit d) \<and> underscores_ok c cs
      else underscores_ok c cs)"

definition float_of_text :: "string \<Rightarrow> pynum option" where
  "float_of_text s =
     (if lower s \<in> set [''nan'', ''+nan'', ''-nan''] then Some NotANumber
      else if underscores_ok (CHR '' '') s then parse_plain (filter (\<lambda>c. c \<noteq> CHR ''_'') s)
      else None)"

definition parse_float :: "string \<Rightarrow> pynum option" where
  "parse_float s = float_of_text (strip s)"

definition pynum_int :: "pynum \<Rightarrow> int_result" where
  "pynum_int x = (case x of Fin r \<Rightarrow> IntOk (trunc r) | PosInf \<Rightarrow> IntOverflowError
                  | NegInf \<Rightarrow> IntOverflowError | NotANumber \<Rightarrow> IntValueError)"

definition py_prims :: "pynum prims" where
  "py_prims = \<lparr>num_str = pynum_str, to_numeric = parse_number, num_zero = Fin 0, num_sub = fl_sub,
                astype_int = pynum_astype_int, py_float = parse_float, py_int = pynum_int,
                num_of_int = (\<lambda>i. Fin (of_int i)),
                num_isna = (\<lambda>x. x = NotANumber)\<rparr>"

section \<open>Numeric coercion (\<open>clean_numeric_data\<close>)\<close>

text \<open>
  \<open>scrub\<close> is the two replacements by regular expression: the first removes commas,
  dollar signs and white space, the second removes every character that is not a digit,
  a dot or a minus sign. \<open>clean_text\<close> adds the replacement of the four null texts by
  \<open>0\<close>, and \<open>clean_value\<close> is what one cell goes through: \<open>astype(str)\<close>, the scrub,
  \<open>pd.to_numeric\<close> with \<open>errors='coerce'\<close> and \<open>fillna(0)\<close>. A column is cleaned when its
  label is one of the five quantity names or contains one of the keywords. The steps of
  one column run inside \<open>try\<close>: for a label that occurs once none of them raises; for
  a label that occurs more than once \<open>df[col]\<close> is a table, \<open>astype(str)\<close> goes through
  and \<open>.str\<close> raises, which the handler turns into a warning, so that those columns are
  left as texts.
\<close>

definition scrub :: "string \<Rightarrow> string" where
  "scrub s =
     filter (\<lambda>c. is_digit c \<or> c = CHR ''.'' \<or> c = CHR ''-'')
       (filter (\<lambda>c. \<not> (c = CHR '','' \<or> c = CHR ''$'' \<or> is_space c)) s)"

definition null_texts :: "string list" where
  "null_texts = [[], ''nan'', ''None'', ''null'']"

definition clean_text :: "string \<Rightarrow> string" where
  "clean_text s = (if scrub s \<in> set null_texts then ''0'' else scrub s)"

definition fillna_zero :: "'n prims \<Rightarrow> 'n option \<Rightarrow> 'n" where
  "fillna_zero P r = (case r of None \<Rightarrow> num_zero P | Some x \<Rightarrow> x)"

definition clean_value :: "'n prims \<Rightarrow> 'n cell \<Rightarrow> 'n" where
  "clean_value P v = fillna_zero P (to_numeric P (clean_text (cell_str P v)))"

definition clean_column :: "'n prims \<Rightarrow> 'n column \<Rightarrow> 'n column" where
  "clean_column P c = NumCol (map (clean_value P) (col_cells c))"

definition astype_str :: "'n prims \<Rightarrow> 'n column \<Rightarrow> 'n column" where
  "astype_str P c = ObjCol (map (\<lambda>v. Str (cell_str P v)) (col_cells c))"

definition clean_numeric_data :: "'n prims \<Rightarrow> 'n frame \<Rightarrow> 'n frame" where
  "clean_numeric_data P df =
     map (\<lambda>lc. if fst lc \<in> set (all_numeric_columns (map fst df))
                then (if count_list (map fst df) (fst lc) = 1
                      then (fst lc, clean_column P (snd lc))
                      else (fst lc, astype_str P (snd lc)))
                else lc) df"

section \<open>Column mapping (\<open>apply_cin7_column_mapping\<close>)\<close>

text \<open>
  \<open>cin7_column_mapping\<close> is the dictionary of \<open>__init__\<close>, in insertion order.
  \<open>find_source\<close> is the inner loop: the first label of the table, in column order, whose
  lower-cased text contains one of the patterns. The three assignments to a table are
  those of pandas: \<open>assign\<close> puts a column under a label, in place when the label exists
  and at the end otherwise; \<open>set_scalar\<close> assigns a text to every row the table has at
  that moment, which is no row at all for a table that has no index yet; \<open>set_series\<close>
  assigns a column of another table, and when the table has no index yet and the column
  is not empty, the table first takes the index of the column, which turns the columns
  it already has (all without rows) into columns of \<open>nan\<close>. All columns assigned by the
  mapper come from the one table \<open>df\<close>, so they share its index. A source label that
  occurs more than once in \<open>df\<close> selects a table instead of a column; assigning that to
  one label raises, and the handler of the mapper returns \<open>df\<close> as it was.
\<close>

definition cin7_column_mapping :: "(string \<times> string list) list" where
  "cin7_column_mapping =
     [(''ProductCode'', [''productcode'', ''product_code'', ''product code'']),
      (''Product'', [''product'', ''description'', ''product description'']),
      (''Branch'', [''branch'', ''location'', ''warehouse'']),
      (''SOH'', [''soh'', ''4 - soh'', ''stock on hand'', ''soh_stock qty'']),
      (''Incoming NOT paid'', [''incoming'', ''5 -'', ''open po'', ''incoming not paid'',
                               ''incoming_not_paid_stock qty'']),
      (''Open Sales'', [''open sales'', ''6 -'', ''allocated'', ''open_sales_stock qty'']),
      (''Grand Total'', [''grand total'', ''7 -'', ''total'', ''grand_total_stock qty''])]"

definition matches_any :: "string list \<Rightarrow> string \<Rightarrow> bool" where
  "matches_any search_patterns df_col =
     list_ex (\<lambda>pattern. contains pattern (lower df_col)) search_patterns"

definition find_source :: "string list \<Rightarrow> string list \<Rightarrow> string option" where
  "find_source search_patterns df_columns = find (matches_any search_patterns) df_columns"

definition default_value :: "string \<Rightarrow> string" where
  "default_value target_col =
     (if target_col \<in> set [''SOH'', ''Incoming NOT paid'', ''Open Sales'', ''Grand Total'']
      then ''0'' else ''N/A'')"

definition assign :: "string \<Rightarrow> 'n column \<Rightarrow> 'n frame \<Rightarrow> 'n frame" where
  "assign key c df =
     (if key \<in> set (map fst df)
      then map (\<lambda>lc. if fst lc = key then (key, c) else lc) df
      else df @ [(key, c)])"

definition set_scalar :: "string \<Rightarrow> string \<Rightarrow> 'n frame \<Rightarrow> 'n frame" where
  "set_scalar key s df = assign key (ObjCol (replicate (nrows df) (Str s))) df"

definition set_series :: "string \<Rightarrow> 'n column \<Rightarrow> 'n frame \<Rightarrow> 'n frame" where
  "set_series key c df =
     assign key c
       (if nrows df = 0 \<and> 0 < col_len c
        then map (\<lambda>lc. (fst lc, ObjCol (replicate (col_len c) NaN))) df
        else df)"

fun map_columns :: "'n frame \<Rightarrow> (string \<times> string list) list \<Rightarrow> 'n frame \<Rightarrow> 'n frame option" where
  "map_columns df [] mapped_df = Some mapped_df"
| "map_columns df (target # rest) mapped_df =
     (case find_source (snd target) (map fst df) of
        None \<Rightarrow>
          map_columns df rest (set_scalar (fst target) (default_value (fst target)) mapped_df)
      | Some source_col \<Rightarrow>
          if source_col = []
          then map_columns df rest (set_scalar (fst target) (default_value (fst target)) mapped_df)
          else if count_list (map fst df) source_col \<noteq> 1 then None
          else (case map_of df source_col of
                  None \<Rightarrow> None
                | Some c \<Rightarrow> map_columns df rest (set_series (fst target) c mapped_df)))"

text \<open>
  The derived column. \<open>fill_numeric\<close> is \<open>pd.to_numeric(..., errors='coerce').fillna(0)\<close>
  on a column; the difference is taken row by row; \<open>astype(int)\<close> raises for the whole
  column when it raises for one value, and then every cell of \<open>Available\<close> is the text
  \<open>0\<close>; otherwise the cells are the texts of the integers.
\<close>

definition fill_value :: "'n prims \<Rightarrow> 'n cell \<Rightarrow> 'n" where
  "fill_value P v =
     (case v of
        Str s \<Rightarrow> fillna_zero P (to_numeric P s)
      | Num x \<Rightarrow> if num_isna P x then num_zero P else x
      | NaN \<Rightarrow> num_zero P)"

definition fill_numeric :: "'n prims \<Rightarrow> 'n column \<Rightarrow> 'n list" where
  "fill_numeric P c = map (fill_value P) (col_cells c)"

definition differences :: "'n prims \<Rightarrow> 'n column \<Rightarrow> 'n column \<Rightarrow> 'n list" where
  "differences P soh open_sales =
     map (\<lambda>xy. num_sub P (fst xy) (snd xy)) (zip (fill_numeric P soh) (fill_numeric P open_sales))"

definition available_column :: "'n prims \<Rightarrow> 'n column \<Rightarrow> 'n column \<Rightarrow> nat \<Rightarrow> 'n column" where
  "available_column P soh open_sales n =
     (case those (map (astype_int P) (differences P soh open_sales)) of
        None \<Rightarrow> ObjCol (replicate n (Str ''0''))
      | Some ints \<Rightarrow> ObjCol (map (\<lambda>i. Str (show_int i)) ints))"

definition add_available :: "'n prims \<Rightarrow> 'n frame \<Rightarrow> 'n frame" where
  "add_available P mapped_df =
     (case map_of mapped_df ''SOH'' of
        None \<Rightarrow> mapped_df
      | Some soh \<Rightarrow>
          (case map_of mapped_df ''Open Sales'' of
             None \<Rightarrow> mapped_df
           | Some open_sales \<Rightarrow>
               assign ''Available'' (available_column P soh open_sales (nrows mapped_df)) mapped_df))"

definition apply_cin7_column_mapping :: "'n prims \<Rightarrow> 'n frame \<Rightarrow> 'n frame" where
  "apply_cin7_column_mapping P df =
     (case map_columns df cin7_column_mapping [] of
        None \<Rightarrow> df
      | Some mapped_df \<Rightarrow> add_available P mapped_df)"

section \<open>Row filter (\<open>process_cin7_excel_data\<close>, invalid rows)\<close>

text \<open>
  The primary-key column is the first label that contains one of the patterns of
  \<open>ProductCode\<close>. \<open>footer\<close> is \<open>str.contains('Grand Total|Total|ProductCode', na=False,
  case=False)\<close> on one cell: an unanchored search that ignores case, and \<open>False\<close> on a cell
  that is not a text. \<open>str_accessor_ok\<close> tells whether pandas grants \<open>.str\<close> on an object
  column: not when its values are numbers only. \<open>select\<close> is indexing with a boolean
  mask. \<open>None\<close> is an exception, which makes \<open>process_cin7_excel_data\<close> return \<open>None\<close>:
  \<open>.str\<close> raises on a numeric column and on the table that a label occurring more than
  once selects.
\<close>

definition footer_markers :: "string list" where
  "footer_markers = [''Grand Total'', ''Total'', ''ProductCode'']"

definition footer :: "'n cell \<Rightarrow> bool" where
  "footer v =
     (case v of
        Str s \<Rightarrow> list_ex (\<lambda>marker. contains (lower marker) (lower s)) footer_markers
      | Num x \<Rightarrow> False
      | NaN \<Rightarrow> False)"

definition keep_cell :: "'n cell \<Rightarrow> bool" where
  "keep_cell v = (v \<noteq> Str [] \<and> v \<noteq> Str ''nan'' \<and> \<not> footer v)"

definition is_num :: "'n cell \<Rightarrow> bool" where
  "is_num v = (case v of Str s \<Rightarrow> False | Num x \<Rightarrow> True | NaN \<Rightarrow> False)"

definition is_str :: "'n cell \<Rightarrow> bool" where
  "is_str v = (case v of Str s \<Rightarrow> True | Num x \<Rightarrow> False | NaN \<Rightarrow> False)"

definition str_accessor_ok :: "'n cell list \<Rightarrow> bool" where
  "str_accessor_ok cs = (list_ex is_str cs \<or> \<not> list_ex is_num cs)"

definition select :: "bool list \<Rightarrow> 'a list \<Rightarrow> 'a list" where
  "select flags xs = map snd (filter fst (zip flags xs))"

fun select_column :: "bool list \<Rightarrow> 'n column \<Rightarrow> 'n column" where
  "select_column flags (ObjCol cs) = ObjCol (select flags cs)"
| "select_column flags (NumCol vs) = NumCol (select flags vs)"

definition find_product_code_col :: "string list \<Rightarrow> string option" where
  "find_product_code_col df_columns =
     find (matches_any (case map_of cin7_column_mapping ''ProductCode'' of
                         None \<Rightarrow> [] | Some search_patterns \<Rightarrow> search_patterns))
       df_columns"

definition remove_invalid_rows :: "bool \<Rightarrow> 'n frame \<Rightarrow> 'n frame option" where
  "remove_invalid_rows verbatim working_df =
     (if verbatim then Some working_df
      else (case find_product_code_col (map fst working_df) of
              None \<Rightarrow> Some working_df
            | Some product_code_col \<Rightarrow>
                if product_code_col = [] then Some working_df
                else if count_list (map fst working_df) product_code_col \<noteq> 1 then None
                else (case map_of working_df product_code_col of
                        None \<Rightarrow> None
                      | Some (NumCol vs) \<Rightarrow> None
                      | Some (ObjCol cs) \<Rightarrow>
                          if str_accessor_ok cs
                          then Some (map (\<lambda>lc. (fst lc, select_column (map keep_cell cs) (snd lc)))
                                       working_df)
                          else None)))"

section \<open>Notions used to state the properties\<close>

text \<open>
  \<open>batch_of row_ids b\<close> is the slice \<open>row_ids[start_idx:end_idx]\<close> of batch \<open>b\<close> in the
  clearing loop, and \<open>ok_batches\<close> reads from the log the batches whose delete call
  succeeded. \<open>upload_config\<close> holds the values set in \<open>__init__\<close>, \<open>env_ok\<close> is a remote
  service that never fails with a user who never cancels, and \<open>initial_state\<close> is the
  state before the worker starts.
\<close>

definition batch_of :: "nat list \<Rightarrow> nat \<Rightarrow> nat list" where
  "batch_of row_ids b = slice (b * 400) (min ((b + 1) * 400) (length row_ids)) row_ids"

definition ok_batches :: "(nat list \<times> response) list \<Rightarrow> nat list list" where
  "ok_batches entries = map fst (filter (\<lambda>e. snd e = Ok) entries)"

definition env_ok :: env where
  "env_ok = \<lparr>cancel_flag = (\<lambda>n. False), get_sheet_result = (\<lambda>n. Ok),
             delete_rows_result = (\<lambda>n. Ok), add_rows_result = (\<lambda>n. Ok)\<rparr>"

definition upload_config :: config where
  "upload_config = \<lparr>batch_size = 20, max_retries = 3, retry_delay = 2, rate_limit_delay = 1 / 2\<rparr>"

definition initial_state :: "(nat \<times> 'r) list \<Rightarrow> 'r sync_state" where
  "initial_state rows = \<lparr>remote = rows, next_id = length rows, flag_reads = 0, get_calls = 0,
     delete_log = [], add_log = [], sleeps = [], uploaded_rows = 0, progress = []\<rparr>"


definition batch_rows :: "config \<Rightarrow> 'n frame \<Rightarrow> nat \<Rightarrow> (string \<times> 'n cell) list list" where
  "batch_rows C df b = slice (b * batch_size C) (min ((b + 1) * batch_size C) (nrows df)) (rows_of df)"

definition batch_done :: "config \<Rightarrow> nat \<Rightarrow> nat \<Rightarrow> nat \<Rightarrow> nat \<Rightarrow> 'r sync_state \<Rightarrow> 'r sync_state" where
  "batch_done C n_total tb b k st =
     (if b + 1 < tb
      then sleep (rate_limit_delay C)
             (st\<lparr>uploaded_rows := uploaded_rows st + k,
                 progress := progress st @ [(uploaded_rows st + k, n_total)]\<rparr>)
      else st\<lparr>uploaded_rows := uploaded_rows st + k,
              progress := progress st @ [(uploaded_rows st + k, n_total)]\<rparr>)"

text \<open>
  Two failing services: one whose delete calls all fail, and one whose first two delete
  calls time out.
\<close>

definition env_delete_down :: env where
  "env_delete_down = env_ok\<lparr>delete_rows_result := (\<lambda>n. ServiceError)\<rparr>"

definition env_delete_flaky :: env where
  "env_delete_flaky = env_ok\<lparr>delete_rows_result := (\<lambda>n. if n < 2 then Timeout else Ok)\<rparr>"

text \<open>
  A small table with an empty product code in its last row, a remote sheet that has
  only the \<open>ProductCode\<close> column, a configuration with batches of one row and two
  attempts, a service whose \<open>add_rows\<close> succeeds once and fails afterwards, a user who
  cancels after the first batch, and a user who confirms at once.
\<close>

definition df_demo :: "pynum frame" where
  "df_demo = [(''ProductCode'', ObjCol [Str ''A1'', Str ''B2'', Str []]),
              (''SOH'', NumCol [Fin 5, Fin 7, Fin 0])]"

definition remote_columns_demo :: "(string \<times> nat) list" where
  "remote_columns_demo = [(''ProductCode'', 101)]"

definition config_small :: config where
  "config_small = \<lparr>batch_size = 1, max_retries = 2, retry_delay = 2, rate_limit_delay = 1 / 2\<rparr>"

definition env_add_down_after_first :: env where
  "env_add_down_after_first = env_ok\<lparr>add_rows_result := (\<lambda>n. if n = 0 then Ok else ServiceError)\<rparr>"

definition env_cancel_after_first :: env where
  "env_cancel_after_first = env_ok\<lparr>cancel_flag := (\<lambda>n. 2 \<le> n)\<rparr>"

definition confirm_yes :: "nat \<Rightarrow> bool option" where
  "confirm_yes k = Some True"

section \<open>Evaluating the concrete reading\<close>

lemma frac_digits_numeral:
  "frac_digits (numeral n) r =
     (if r = of_int \<lfloor>r\<rfloor> then 0 else Suc (frac_digits (pred_numeral n) (r * 10)))"
  by (simp add: numeral_eq_Suc)

lemmas num_eval = digit_chars_def is_digit_def digit_val_def digits_val_def digit_char_def
  show_nat.simps show_int_def parse_unsigned_def parse_decimal_def parse_number_def
  is_exp_char_def parse_digits_def parse_exponent_def scale10_def with_exponent_def
  parse_mantissa_exp_def parse_plain_def is_c_space_def float_of_text_def upper_chars_def
  lower_chars_def
  frac_digits_numeral pad_zeros_def sci_notation_def float_repr_def repr_scaled_def
  repr_body_def trunc_def lower_def lower_char_def pynum_str_def pynum_astype_int_def
  parse_float_def pynum_int_def py_prims_def strip_def strip_pred_def is_space_def

section \<open>Properties of header reconciliation\<close>

lemma strip_pred_id:
  assumes "s \<noteq> []" and "\<not> P (hd s)" and "\<not> P (last s)"
  shows "strip_pred P s = s"
proof -
  from assms(1,2) have a: "dropWhile P s = s"
    by (cases s) simp_all
  from assms(1,3) have b: "dropWhile P (rev s) = rev s"
    by (cases "rev s") (simp_all add: last_rev [symmetric] hd_rev)
  show ?thesis
    by (simp add: strip_pred_def a b)
qed

text \<open>
  C2, as the code has it: when both labels are non-empty as given and differ after
  trimming, the flat label is \<open>outer_inner\<close> with leading and trailing underscores
  removed, which is \<open>outer_inner\<close> itself when \<open>outer\<close> does not start and \<open>inner\<close> does
  not end with an underscore; in every other case it is the inner label trimmed when
  the inner label is non-empty, and the outer label trimmed otherwise.
\<close>

theorem reconcile_flat_label:
  "(outer \<noteq> [] \<and> inner \<noteq> [] \<and> strip outer \<noteq> strip inner \<longrightarrow>
      reconcile (outer, inner) = strip_chars ''_'' (outer @ ''_'' @ inner) \<and>
      (hd outer \<noteq> CHR ''_'' \<and> last inner \<noteq> CHR ''_'' \<longrightarrow>
         reconcile (outer, inner) = outer @ ''_'' @ inner)) \<and>
   (\<not> (outer \<noteq> [] \<and> inner \<noteq> [] \<and> strip outer \<noteq> strip inner) \<longrightarrow>
      reconcile (outer, inner) = (if inner \<noteq> [] then strip inner else strip outer))"
proof -
  have "strip_chars ''_'' (outer @ ''_'' @ inner) = outer @ ''_'' @ inner"
    if "outer \<noteq> []" "inner \<noteq> []" "hd outer \<noteq> CHR ''_''" "last inner \<noteq> CHR ''_''"
    unfolding strip_chars_def using that
    by (intro strip_pred_id) (simp_all add: hd_append)
  then show ?thesis
    by (auto simp: reconcile_def)
qed

theorem reconcile_flat_label_witness:
  "reconcile (''4'', ''SOH'') = ''4_SOH'' \<and> reconcile ([], ''SOH'') = ''SOH'' \<and>
   reconcile (''SOH'', ''SOH'') = ''SOH'' \<and> reconcile (''Branch '', []) = ''Branch''"
  using reconcile_flat_label [of "''4''" "''SOH''"] reconcile_flat_label [of "[]" "''SOH''"]
    reconcile_flat_label [of "''SOH''" "''SOH''"] reconcile_flat_label [of "''Branch ''" "[]"]
  by (simp add: strip_def strip_chars_def strip_pred_def is_space_def)

theorem reconcile_underscore_counterexample:
  "reconcile (''4'', ''SOH_'') = ''4_SOH'' \<and> reconcile (''4'', ''SOH_'') \<noteq> ''4'' @ ''_'' @ ''SOH_'' \<and>
   reconcile ('' '', ''SOH'') = '' _SOH'' \<and> reconcile ('' '', ''SOH'') \<noteq> ''SOH'' \<and>
   reconcile (''4 '', ''SOH'') = ''4 _SOH'' \<and> reconcile (''4 '', ''SOH'') \<noteq> ''4_SOH''"
  by (simp add: reconcile_def strip_def strip_chars_def strip_pred_def is_space_def)

section \<open>Properties of the clearing phase\<close>

lemma slice_length_le: "length (slice a b xs) \<le> b - a"
  by (simp add: slice_def)

lemma concat_slices:
  "concat (map (\<lambda>b. slice (b * k) (min ((b + 1) * k) (length xs)) xs) [0..<j]) = take (j * k) xs"
proof (induction j)
  case 0
  then show ?case by simp
next
  case (Suc j)
  have "take (j * k) xs @ slice (j * k) (min ((j + 1) * k) (length xs)) xs = take (Suc j * k) xs"
  proof (cases "(j + 1) * k \<le> length xs")
    case True
    then have "min ((j + 1) * k) (length xs) - j * k = k" by simp
    then show ?thesis
      by (simp add: slice_def take_add [symmetric] add.commute)
  next
    case False
    then have m: "min ((j + 1) * k) (length xs) = length xs" and big: "length xs \<le> Suc j * k"
      by simp_all
    have "take (j * k) xs @ slice (j * k) (length xs) xs = take (j * k + (length xs - j * k)) xs"
      unfolding slice_def by (rule take_add [symmetric])
    also have "\<dots> = xs" by simp
    also have "xs = take (Suc j * k) xs" using big by simp
    finally show ?thesis unfolding m .
  qed
  with Suc show ?case by simp
qed

lemma concat_all_slices:
  assumes "0 < k"
  shows "concat (map (\<lambda>b. slice (b * k) (min ((b + 1) * k) (length xs)) xs)
           [0..<(length xs + k - 1) div k]) = xs"
proof -
  have "length xs \<le> ((length xs + k - 1) div k) * k"
  proof -
    have "length xs + k - 1 < ((length xs + k - 1) div k) * k + k"
      using assms by (metis add.commute dividend_less_times_div mult.commute)
    then show ?thesis using assms by linarith
  qed
  then show ?thesis unfolding concat_slices by simp
qed

lemma ceil_div: "int ((n + 399) div 400) = \<lceil>real n / 400\<rceil>"
  by linarith

lemma delete_retry_upt:
  assumes "delete_retry E C ids [k..<max_retries C] st = (True, st')" and "k < max_retries C"
  shows "remote st' = filter (\<lambda>row. fst row \<notin> set ids) (remote st) \<and>
         (\<exists>fs. delete_log st' = delete_log st @ fs @ [(ids, Ok)] \<and> (\<forall>e \<in> set fs. fst e = ids \<and> snd e \<noteq> Ok)) \<and>
         flag_reads st' = flag_reads st"
  using assms
proof (induction "max_retries C - k" arbitrary: k st)
  case 0
  then show ?case by simp
next
  case (Suc d)
  then have upt: "[k..<max_retries C] = k # [Suc k..<max_retries C]"
    by (simp add: upt_conv_Cons)
  let ?r = "delete_rows_result E (length (delete_log st))"
  let ?st1 = "st\<lparr>delete_log := delete_log st @ [(ids, ?r)]\<rparr>"
  show ?case
  proof (cases "?r = Ok")
    case True
    with Suc.prems upt show ?thesis
      by (auto simp: Let_def)
  next
    case False
    with Suc.prems upt have notlast: "Suc k \<noteq> max_retries C"
      by (auto simp: Let_def)
    with Suc.prems have lt: "Suc k < max_retries C" by simp
    from False notlast Suc.prems upt
    have rec: "delete_retry E C ids [Suc k..<max_retries C] (sleep (retry_delay C) ?st1) = (True, st')"
      by (simp add: Let_def)
    from Suc.hyps(2) have "d = max_retries C - Suc k" by simp
    from Suc.hyps(1) [OF this rec lt]
    obtain fs where fs: "remote st' = filter (\<lambda>row. fst row \<notin> set ids) (remote st)"
      "delete_log st' = delete_log st @ [(ids, ?r)] @ fs @ [(ids, Ok)]"
      "\<forall>e \<in> set fs. fst e = ids \<and> snd e \<noteq> Ok" "flag_reads st' = flag_reads st"
      by (auto simp: sleep_def)
    have "delete_log st' = delete_log st @ ((ids, ?r) # fs) @ [(ids, Ok)] \<and>
          (\<forall>e \<in> set ((ids, ?r) # fs). fst e = ids \<and> snd e \<noteq> Ok)"
      using fs False by simp
    then show ?thesis using fs(1,4) by blast
  qed
qed

lemma get_sheet_retry_keeps:
  "get_sheet_retry E C attempts st = (g, st') \<Longrightarrow>
     remote st' = remote st \<and> delete_log st' = delete_log st \<and> flag_reads st' = flag_reads st"
  by (induction E C attempts st rule: get_sheet_retry.induct)
     (auto simp: Let_def sleep_def split: if_splits)

lemma clear_batches_done:
  assumes "clear_batches E C row_ids tb bs st = (ClearDone, st')" and "0 < max_retries C"
  shows "remote st' = filter (\<lambda>row. fst row \<notin> set (concat (map (batch_of row_ids) bs))) (remote st) \<and>
         ok_batches (delete_log st') = ok_batches (delete_log st) @ map (batch_of row_ids) bs \<and>
         (\<forall>e \<in> set (delete_log st'). e \<in> set (delete_log st) \<or> fst e \<in> batch_of row_ids ` set bs)"
  using assms
proof (induction bs arbitrary: st)
  case Nil
  then show ?case by simp
next
  case (Cons b bs)
  let ?st1 = "st\<lparr>flag_reads := Suc (flag_reads st)\<rparr>"
  from Cons.prems(1) have nf: "\<not> cancel_flag E (flag_reads st)"
    by (auto simp: read_flag_def split: if_splits)
  from Cons.prems(1) nf obtain st2 where
    d: "delete_retry E C (batch_of row_ids b) [0..<max_retries C] ?st1 = (True, st2)" and
    r: "clear_batches E C row_ids tb bs
          (if b + 1 < tb then sleep (rate_limit_delay C) st2 else st2) = (ClearDone, st')"
    by (auto simp: read_flag_def batch_of_def Let_def split: prod.splits bool.splits)
  from delete_retry_upt [OF d Cons.prems(2)] obtain fs where
    d1: "remote st2 = filter (\<lambda>row. fst row \<notin> set (batch_of row_ids b)) (remote st)"
    and d2: "delete_log st2 = delete_log st @ fs @ [(batch_of row_ids b, Ok)]"
    and d3: "\<forall>e \<in> set fs. fst e = batch_of row_ids b \<and> snd e \<noteq> Ok"
    by auto
  let ?st3 = "if b + 1 < tb then sleep (rate_limit_delay C) st2 else st2"
  have s3: "remote ?st3 = remote st2" "delete_log ?st3 = delete_log st2"
    by (simp_all add: sleep_def)
  from Cons.IH [OF r Cons.prems(2)] have
    i1: "remote st' = filter (\<lambda>row. fst row \<notin> set (concat (map (batch_of row_ids) bs))) (remote st2)"
    and i2: "ok_batches (delete_log st') = ok_batches (delete_log st2) @ map (batch_of row_ids) bs"
    and i3: "\<forall>e \<in> set (delete_log st'). e \<in> set (delete_log st2) \<or> fst e \<in> batch_of row_ids ` set bs"
    unfolding s3 by auto
  have okfs: "ok_batches (delete_log st2) = ok_batches (delete_log st) @ [batch_of row_ids b]"
    using d3 by (simp add: d2 ok_batches_def filter_empty_conv [THEN iffD2])
  have a: "remote st' = filter (\<lambda>row. fst row \<notin> set (concat (map (batch_of row_ids) (b # bs)))) (remote st)"
    unfolding i1 d1 by (auto intro: filter_cong)
  have b: "ok_batches (delete_log st') = ok_batches (delete_log st) @ map (batch_of row_ids) (b # bs)"
    unfolding i2 okfs by simp
  have c: "\<forall>e \<in> set (delete_log st'). e \<in> set (delete_log st) \<or> fst e \<in> batch_of row_ids ` set (b # bs)"
    using i3 d2 d3 by auto
  from a b c show ?case by blast
qed

lemma batch_of_length:
  assumes "b < (length row_ids + 400 - 1) div 400"
  shows "0 < length (batch_of row_ids b) \<and> length (batch_of row_ids b) \<le> 400"
proof -
  from assms have "b * 400 < length row_ids" by linarith
  then show ?thesis by (auto simp add: batch_of_def slice_def min_def)
qed

lemma batch_of_length_le: "length (batch_of row_ids b) \<le> 400"
  by (auto simp add: batch_of_def slice_def min_def)

lemma delete_retry_all_ok:
  assumes "0 < max_retries C" and "\<forall>n. delete_rows_result E n = Ok"
  shows "fst (delete_retry E C ids [0..<max_retries C] st) = True"
  using assms by (simp add: upt_conv_Cons Let_def)

lemma clear_batches_all_ok:
  assumes "0 < max_retries C" and "\<forall>n. delete_rows_result E n = Ok" and "\<forall>n. \<not> cancel_flag E n"
  shows "fst (clear_batches E C row_ids tb bs st) = ClearDone"
proof (induction bs arbitrary: st)
  case Nil
  then show ?case by simp
next
  case (Cons b bs)
  let ?st1 = "st\<lparr>flag_reads := Suc (flag_reads st)\<rparr>"
  obtain st2 where d: "delete_retry E C (batch_of row_ids b) [0..<max_retries C] ?st1 = (True, st2)"
    using delete_retry_all_ok [OF assms(1,2), of "batch_of row_ids b" ?st1]
    by (cases "delete_retry E C (batch_of row_ids b) [0..<max_retries C] ?st1") simp
  show ?case
    using assms(3) d [unfolded batch_of_def] Cons.IH
    by (simp add: read_flag_def Let_def del: delete_retry.simps)
qed

text \<open>
  C5: whenever the clearing runs to its end (no cancellation, no exception), the remote
  sheet is empty, the batches whose delete call succeeded are, in order, a partition of
  the fetched row identifiers into non-empty batches of at most 400 identifiers, there
  are exactly \<open>\<lceil>N / 400\<rceil>\<close> of them, and no delete call carries more than 400
  identifiers. With a retry budget of at least one, a non-empty sheet, no cancellation
  and a remote service that answers, the clearing does run to its end.
\<close>

theorem clear_deletes_all_rows_in_batches:
  "(clear_smartsheet_data_enhanced E C st = (ClearDone, st') \<longrightarrow>
      remote st' = [] \<and>
      (\<exists>batches. ok_batches (delete_log st') = ok_batches (delete_log st) @ batches \<and>
         concat batches = map fst (remote st) \<and>
         (\<forall>b \<in> set batches. 0 < length b \<and> length b \<le> 400) \<and>
         int (length batches) = \<lceil>real (length (remote st)) / 400\<rceil>) \<and>
      (\<forall>e \<in> set (delete_log st'). e \<in> set (delete_log st) \<or> length (fst e) \<le> 400)) \<and>
   (0 < max_retries C \<and> remote st \<noteq> [] \<and> (\<forall>n. \<not> cancel_flag E n) \<and>
    (\<forall>n. get_sheet_result E n = Ok) \<and> (\<forall>n. delete_rows_result E n = Ok) \<longrightarrow>
      fst (clear_smartsheet_data_enhanced E C st) = ClearDone)"
proof (intro conjI impI)
  assume a: "0 < max_retries C \<and> remote st \<noteq> [] \<and> (\<forall>n. \<not> cancel_flag E n) \<and>
    (\<forall>n. get_sheet_result E n = Ok) \<and> (\<forall>n. delete_rows_result E n = Ok)"
  then have g: "get_sheet_retry E C [0..<max_retries C] st = (GotSheet, st\<lparr>get_calls := Suc (get_calls st)\<rparr>)"
    by (simp add: upt_conv_Cons Let_def)
  show "fst (clear_smartsheet_data_enhanced E C st) = ClearDone"
    using a clear_batches_all_ok [of C E]
    by (simp add: clear_smartsheet_data_enhanced_def g Let_def)
next
  assume fin: "clear_smartsheet_data_enhanced E C st = (ClearDone, st')"
  obtain g st1 where g: "get_sheet_retry E C [0..<max_retries C] st = (g, st1)"
    by (cases "get_sheet_retry E C [0..<max_retries C] st")
  from fin g have got: "g = GotSheet"
    by (cases g) (simp_all add: clear_smartsheet_data_enhanced_def)
  have pos: "0 < max_retries C"
  proof (rule ccontr)
    assume "\<not> 0 < max_retries C"
    with g got show False by simp
  qed
  from get_sheet_retry_keeps [OF g] have keep: "remote st1 = remote st" "delete_log st1 = delete_log st"
    by simp_all
  let ?ids = "map fst (remote st)"
  let ?tb = "(length ?ids + 400 - 1) div 400"
  from fin g got keep have ne: "remote st \<noteq> []" and
    cb: "clear_batches E C ?ids ?tb [0..<?tb] st1 = (ClearDone, st')"
    by (auto simp: clear_smartsheet_data_enhanced_def Let_def split: if_splits)
  from clear_batches_done [OF cb pos] have
    r: "remote st' = filter (\<lambda>row. fst row \<notin> set (concat (map (batch_of ?ids) [0..<?tb]))) (remote st)"
    and o: "ok_batches (delete_log st') = ok_batches (delete_log st) @ map (batch_of ?ids) [0..<?tb]"
    and c: "\<forall>e \<in> set (delete_log st'). e \<in> set (delete_log st) \<or> fst e \<in> batch_of ?ids ` set [0..<?tb]"
    unfolding keep by auto
  have cc: "concat (map (batch_of ?ids) [0..<?tb]) = ?ids"
    using concat_all_slices [of 400 ?ids] by (simp add: batch_of_def [abs_def])
  show "remote st' = []"
    unfolding r cc by (simp add: filter_empty_conv)
  show "\<forall>e \<in> set (delete_log st'). e \<in> set (delete_log st) \<or> length (fst e) \<le> 400"
    using c batch_of_length_le by fastforce
  have "ok_batches (delete_log st') = ok_batches (delete_log st) @ map (batch_of ?ids) [0..<?tb] \<and>
        concat (map (batch_of ?ids) [0..<?tb]) = map fst (remote st) \<and>
        (\<forall>b \<in> set (map (batch_of ?ids) [0..<?tb]). 0 < length b \<and> length b \<le> 400) \<and>
        int (length (map (batch_of ?ids) [0..<?tb])) = \<lceil>real (length (remote st)) / 400\<rceil>"
    using o cc batch_of_length [of _ ?ids] ceil_div [of "length (remote st)"] by auto
  then show "\<exists>batches. ok_batches (delete_log st') = ok_batches (delete_log st) @ batches \<and>
         concat batches = map fst (remote st) \<and>
         (\<forall>b \<in> set batches. 0 < length b \<and> length b \<le> 400) \<and>
         int (length batches) = \<lceil>real (length (remote st)) / 400\<rceil>"
    by blast
qed

theorem clear_deletes_all_rows_in_batches_witness:
  "\<exists>st'. clear_smartsheet_data_enhanced env_ok upload_config
           (initial_state (map (\<lambda>i. (i, ())) [0..<401])) = (ClearDone, st') \<and>
         remote st' = [] \<and> length (ok_batches (delete_log st')) = 2 \<and>
         concat (ok_batches (delete_log st')) = [0..<401]"
proof -
  let ?st = "initial_state (map (\<lambda>i. (i, ())) [0..<401]) :: unit sync_state"
  let ?r = "clear_smartsheet_data_enhanced env_ok upload_config ?st"
  have ne: "remote ?st \<noteq> []"
    by (simp add: initial_state_def upt_conv_Cons)
  have "fst ?r = ClearDone"
    using clear_deletes_all_rows_in_batches [of env_ok upload_config ?st] ne
    by (simp add: env_ok_def upload_config_def)
  then have e: "?r = (ClearDone, snd ?r)"
    by (simp add: prod_eq_iff)
  have len: "length (remote ?st) = 401" and dl: "delete_log ?st = []"
    and ids: "map fst (remote ?st) = [0..<401]"
    by (simp_all add: initial_state_def o_def)
  from clear_deletes_all_rows_in_batches [of env_ok upload_config ?st "snd ?r"] e
  obtain batches where "remote (snd ?r) = []"
    "ok_batches (delete_log (snd ?r)) = ok_batches (delete_log ?st) @ batches"
    "concat batches = map fst (remote ?st)"
    "int (length batches) = \<lceil>real (length (remote ?st)) / 400\<rceil>"
    by blast
  then have "remote (snd ?r) = [] \<and> length (ok_batches (delete_log (snd ?r))) = 2 \<and>
        concat (ok_batches (delete_log (snd ?r))) = [0..<401]"
    unfolding len dl ids by (simp add: ok_batches_def)
  with e show ?thesis by blast
qed


section \<open>Properties of the retry loop of the clearing phase\<close>

lemma delete_retry_trace:
  assumes "delete_retry E C ids [k..<max_retries C] st = (b, st')" and "k < max_retries C"
  shows "\<exists>n. 1 \<le> n \<and> n \<le> max_retries C - k \<and>
           length (delete_log st') = length (delete_log st) + n \<and>
           sleeps st' = sleeps st @ replicate (n - 1) (retry_delay C) \<and>
           (\<forall>i<n - 1. delete_rows_result E (length (delete_log st) + i) \<noteq> Ok) \<and>
           (b \<longleftrightarrow> delete_rows_result E (length (delete_log st) + (n - 1)) = Ok) \<and>
           (\<not> b \<longrightarrow> n = max_retries C - k)"
  using assms
proof (induction "max_retries C - k" arbitrary: k st)
  case 0
  then show ?case by simp
next
  case (Suc d)
  then have upt: "[k..<max_retries C] = k # [Suc k..<max_retries C]"
    by (simp add: upt_conv_Cons)
  let ?r = "delete_rows_result E (length (delete_log st))"
  let ?st1 = "st\<lparr>delete_log := delete_log st @ [(ids, ?r)]\<rparr>"
  show ?case
  proof (cases "?r = Ok")
    case True
    with Suc.prems upt have "b" "length (delete_log st') = length (delete_log st) + 1" "sleeps st' = sleeps st"
      by (auto simp: Let_def)
    with True Suc.prems(2) show ?thesis
      by (intro exI [of _ 1]) simp
  next
    case False
    show ?thesis
    proof (cases "Suc k = max_retries C")
      case True
      from Suc.prems(1) have "delete_retry E C ids (k # [Suc k..<max_retries C]) st = (b, st')"
        unfolding upt .
      with False True have "\<not> b" "length (delete_log st') = length (delete_log st) + 1" "sleeps st' = sleeps st"
        by (auto simp: Let_def)
      moreover have "max_retries C - k = 1" using True by linarith
      ultimately show ?thesis using False
        by (intro exI [of _ 1]) simp
    next
      case notlast: False
      with Suc.prems have lt: "Suc k < max_retries C" by simp
      from False notlast Suc.prems upt
      have rec: "delete_retry E C ids [Suc k..<max_retries C] (sleep (retry_delay C) ?st1) = (b, st')"
        by (simp add: Let_def)
      from Suc.hyps(2) have "d = max_retries C - Suc k" by simp
      from Suc.hyps(1) [OF this rec lt]
      obtain n where n0: "1 \<le> n" "n \<le> max_retries C - Suc k"
        "length (delete_log st') = length (delete_log (sleep (retry_delay C) ?st1)) + n"
        "sleeps st' = sleeps (sleep (retry_delay C) ?st1) @ replicate (n - 1) (retry_delay C)"
        "\<forall>i<n - 1. delete_rows_result E (length (delete_log (sleep (retry_delay C) ?st1)) + i) \<noteq> Ok"
        "b \<longleftrightarrow> delete_rows_result E (length (delete_log (sleep (retry_delay C) ?st1)) + (n - 1)) = Ok"
        "\<not> b \<longrightarrow> n = max_retries C - Suc k"
        by blast
      have L1: "length (delete_log (sleep (retry_delay C) ?st1)) = length (delete_log st) + 1"
        and S1: "sleeps (sleep (retry_delay C) ?st1) = sleeps st @ [retry_delay C]"
        by (simp_all add: sleep_def)
      note n = n0 [unfolded L1 S1]
      have fails: "\<forall>i<n. delete_rows_result E (length (delete_log st) + i) \<noteq> Ok"
      proof (intro allI impI)
        fix i assume "i < n"
        show "delete_rows_result E (length (delete_log st) + i) \<noteq> Ok"
        proof (cases i)
          case 0
          with False show ?thesis by simp
        next
          case (Suc j)
          with \<open>i < n\<close> n(5) have "delete_rows_result E (length (delete_log st) + 1 + j) \<noteq> Ok" by simp
          with Suc show ?thesis by simp
        qed
      qed
      have rep: "[retry_delay C] @ replicate (n - 1) (retry_delay C) = replicate n (retry_delay C)"
        using n0(1) by (cases n) simp_all
      have a1: "Suc n \<le> max_retries C - k" using n(2) lt by linarith
      have a2: "length (delete_log st') = length (delete_log st) + Suc n" using n(3) by simp
      have a3: "sleeps st' = sleeps st @ replicate (Suc n - 1) (retry_delay C)"
        using n(4) rep by (simp add: replicate_append_same)
      have a4: "\<forall>i<Suc n - 1. delete_rows_result E (length (delete_log st) + i) \<noteq> Ok"
        using fails by simp
      have "length (delete_log st) + 1 + (n - 1) = length (delete_log st) + (Suc n - 1)"
        using n(1) by simp
      with n(6) have a5: "b \<longleftrightarrow> delete_rows_result E (length (delete_log st) + (Suc n - 1)) = Ok"
        by simp
      have a6: "\<not> b \<longrightarrow> Suc n = max_retries C - k" using n(7) lt by auto
      have a0: "1 \<le> Suc n" by simp
      from a0 a1 a2 a3 a4 a5 a6 show ?thesis by blast
    qed
  qed
qed

lemma delete_retry_add_log:
  "delete_retry E C ids attempts st = (b, st') \<Longrightarrow> add_log st' = add_log st \<and> flag_reads st' = flag_reads st"
  by (induction E C ids attempts st rule: delete_retry.induct)
     (auto simp: Let_def sleep_def split: if_splits)

lemma get_sheet_retry_add_log:
  "get_sheet_retry E C attempts st = (g, st') \<Longrightarrow> add_log st' = add_log st"
  by (induction E C attempts st rule: get_sheet_retry.induct)
     (auto simp: Let_def sleep_def split: if_splits)

lemma clear_batches_add_log:
  "clear_batches E C row_ids tb bs st = (r, st') \<Longrightarrow> add_log st' = add_log st"
proof (induction bs arbitrary: st)
  case Nil
  then show ?case by simp
next
  case (Cons b bs)
  show ?case
  proof (cases "cancel_flag E (flag_reads st)")
    case True
    with Cons.prems show ?thesis by (auto simp: read_flag_def)
  next
    case False
    let ?st1 = "st\<lparr>flag_reads := Suc (flag_reads st)\<rparr>"
    obtain ok st2 where d: "delete_retry E C (batch_of row_ids b) [0..<max_retries C] ?st1 = (ok, st2)"
      by (cases "delete_retry E C (batch_of row_ids b) [0..<max_retries C] ?st1")
    from delete_retry_add_log [OF d] have a: "add_log st2 = add_log st" by simp
    show ?thesis
    proof (cases ok)
      case True
      with Cons.prems False d [unfolded batch_of_def]
      have "clear_batches E C row_ids tb bs
              (if b + 1 < tb then sleep (rate_limit_delay C) st2 else st2) = (r, st')"
        by (simp add: read_flag_def Let_def del: delete_retry.simps)
      from Cons.IH [OF this] a show ?thesis by (simp add: sleep_def split: if_splits)
    next
      case no: False
      with Cons.prems False d [unfolded batch_of_def] have "st' = st2"
        by (simp add: read_flag_def Let_def del: delete_retry.simps)
      with a show ?thesis by simp
    qed
  qed
qed

lemma clear_add_log:
  "clear_smartsheet_data_enhanced E C st = (r, st') \<Longrightarrow> add_log st' = add_log st"
proof -
  assume c: "clear_smartsheet_data_enhanced E C st = (r, st')"
  obtain g st1 where g: "get_sheet_retry E C [0..<max_retries C] st = (g, st1)"
    by (cases "get_sheet_retry E C [0..<max_retries C] st")
  from get_sheet_retry_add_log [OF g] have a: "add_log st1 = add_log st" .
  show ?thesis
  proof (cases "g = GotSheet \<and> remote st1 \<noteq> []")
    case True
    with c g have "clear_batches E C (map fst (remote st1)) ((length (map fst (remote st1)) + 400 - 1) div 400)
        [0..<(length (map fst (remote st1)) + 400 - 1) div 400] st1 = (r, st')"
      by (simp add: clear_smartsheet_data_enhanced_def Let_def)
    from clear_batches_add_log [OF this] a show ?thesis by simp
  next
    case False
    with c g have "st' = st1"
      by (cases g) (auto simp: clear_smartsheet_data_enhanced_def Let_def split: if_splits)
    with a show ?thesis by simp
  qed
qed

lemma clear_batches_append:
  "clear_batches E C row_ids tb (xs @ ys) st =
     (case clear_batches E C row_ids tb xs st of
        (ClearDone, st1) \<Rightarrow> clear_batches E C row_ids tb ys st1
      | other \<Rightarrow> other)"
proof (induction xs arbitrary: st)
  case Nil
  then show ?case by simp
next
  case (Cons b xs)
  show ?case
  proof (cases "cancel_flag E (flag_reads st)")
    case True
    then show ?thesis by (simp add: read_flag_def)
  next
    case False
    let ?st1 = "st\<lparr>flag_reads := Suc (flag_reads st)\<rparr>"
    obtain ok st2 where d: "delete_retry E C (batch_of row_ids b) [0..<max_retries C] ?st1 = (ok, st2)"
      by (cases "delete_retry E C (batch_of row_ids b) [0..<max_retries C] ?st1")
    show ?thesis
      using False d [unfolded batch_of_def] Cons.IH
      by (cases ok) (simp_all add: read_flag_def Let_def del: delete_retry.simps)
  qed
qed

lemma confirmation_wait_keeps:
  "confirmation_wait E confirmation polls k st = (w, st') \<Longrightarrow>
     add_log st' = add_log st \<and> remote st' = remote st \<and> delete_log st' = delete_log st"
proof (induction polls arbitrary: k st)
  case 0
  then show ?case by auto
next
  case (Suc polls)
  show ?case
  proof (cases "confirmation k = None \<and> \<not> cancel_flag E (flag_reads st)")
    case True
    with Suc.prems have "confirmation_wait E confirmation polls (Suc k)
        (sleep (1 / 10) st\<lparr>flag_reads := Suc (flag_reads st)\<rparr>) = (w, st')"
      by (simp add: read_flag_def sleep_def)
    from Suc.IH [OF this] show ?thesis by (simp add: sleep_def)
  next
    case False
    with Suc.prems show ?thesis
      by (auto simp: read_flag_def sleep_def split: if_splits)
  qed
qed

lemma confirmation_wait_numeral:
  "confirmation_wait E confirmation (numeral n) k st =
     (if confirmation k \<noteq> None
      then (if confirmation (Suc k) = Some True then Confirmed else NotConfirmed, st)
      else (case read_flag E (sleep (1 / 10) st) of
              (True, st1) \<Rightarrow> (CancelSeen, st1)
            | (False, st1) \<Rightarrow> confirmation_wait E confirmation (pred_numeral n) (Suc k) st1))"
  by (simp add: numeral_eq_Suc)

lemma upload_process_confirmed:
  assumes "\<not> frame_empty df" and "confirmation_wait E confirmation polls 0 st = (Confirmed, st1)"
  shows "upload_process P E C overwrite remote_columns (Some df) confirmation polls st =
         sync_steps P E C overwrite remote_columns df st1"
  using assms by (simp add: upload_process_def)

lemmas sync_eval = clear_smartsheet_data_enhanced_def env_ok_def env_delete_down_def env_delete_flaky_def
  upload_config_def initial_state_def read_flag_def sleep_def slice_def Let_def upt_conv_Cons

lemmas upload_eval = upload_process_def sync_steps_def frame_empty_def confirmation_wait_numeral
  confirm_yes_def upload_data_enhanced_def report_def column_map_def
  add_rows_ok_def make_cell_value_def cell_wanted_def cell_str_def rows_of_def row_at_def
  nrows_def col_len_def all_numeric_columns_def numeric_columns_def numeric_keywords_def
  has_keyword_def df_demo_def remote_columns_demo_def config_small_def
  env_add_down_after_first_def env_cancel_after_first_def

text \<open>
  C8, as the code has it: with a retry budget of at least one, a batch delete is
  attempted \<open>n\<close> times with \<open>1 \<le> n \<le> max_retries\<close>, every attempt before the last one
  failed, the loop sleeps between two attempts and each of these sleeps lasts exactly
  \<open>retry_delay\<close> (it is not multiplied by the attempt number), and the loop raises exactly
  when the last attempt failed, which is then attempt number \<open>max_retries\<close>. A batch whose
  delete raises makes the clearing raise, whatever batches were cleared before. When
  the worker has a non-empty table and the user has confirmed, a clearing that raises
  ends the worker with a fatal error before any row is submitted.
\<close>

theorem clear_retry_fixed_delay:
  "(0 < max_retries C \<and> delete_retry E C ids [0..<max_retries C] st = (b, st') \<longrightarrow>
      (\<exists>n. 1 \<le> n \<and> n \<le> max_retries C \<and>
           length (delete_log st') = length (delete_log st) + n \<and>
           sleeps st' = sleeps st @ replicate (n - 1) (retry_delay C) \<and>
           (\<forall>i<n - 1. delete_rows_result E (length (delete_log st) + i) \<noteq> Ok) \<and>
           (b \<longleftrightarrow> delete_rows_result E (length (delete_log st) + (n - 1)) = Ok) \<and>
           (\<not> b \<longrightarrow> n = max_retries C))) \<and>
   (clear_batches E C row_ids tb pre st0 = (ClearDone, st1) \<and> \<not> cancel_flag E (flag_reads st1) \<and>
    delete_retry E C (batch_of row_ids k) [0..<max_retries C] (snd (read_flag E st1)) = (False, st2) \<longrightarrow>
      clear_batches E C row_ids tb (pre @ k # post) st0 = (ClearRaised, st2)) \<and>
   (\<not> frame_empty df \<and> confirmation_wait E confirmation polls 0 s = (Confirmed, s1) \<and>
    fst (clear_smartsheet_data_enhanced E C s1) = ClearRaised \<longrightarrow>
      fst (upload_process P E C True remote_columns (Some df) confirmation polls s) = FatalError \<and>
      add_log (snd (upload_process P E C True remote_columns (Some df) confirmation polls s)) =
        add_log s)"
proof (intro conjI impI)
  assume "0 < max_retries C \<and> delete_retry E C ids [0..<max_retries C] st = (b, st')"
  then show "\<exists>n. 1 \<le> n \<and> n \<le> max_retries C \<and>
           length (delete_log st') = length (delete_log st) + n \<and>
           sleeps st' = sleeps st @ replicate (n - 1) (retry_delay C) \<and>
           (\<forall>i<n - 1. delete_rows_result E (length (delete_log st) + i) \<noteq> Ok) \<and>
           (b \<longleftrightarrow> delete_rows_result E (length (delete_log st) + (n - 1)) = Ok) \<and>
           (\<not> b \<longrightarrow> n = max_retries C)"
    using delete_retry_trace [of E C ids 0 st b st'] by simp
next
  assume a: "clear_batches E C row_ids tb pre st0 = (ClearDone, st1) \<and> \<not> cancel_flag E (flag_reads st1) \<and>
    delete_retry E C (batch_of row_ids k) [0..<max_retries C] (snd (read_flag E st1)) = (False, st2)"
  then have d: "delete_retry E C (slice (k * 400) (min ((k + 1) * 400) (length row_ids)) row_ids)
      [0..<max_retries C] (st1\<lparr>flag_reads := Suc (flag_reads st1)\<rparr>) = (False, st2)"
    by (simp add: read_flag_def batch_of_def)
  have "clear_batches E C row_ids tb (k # post) st1 = (ClearRaised, st2)"
    using a d by (simp add: read_flag_def Let_def del: delete_retry.simps)
  with a show "clear_batches E C row_ids tb (pre @ k # post) st0 = (ClearRaised, st2)"
    by (simp add: clear_batches_append del: clear_batches.simps)
next
  assume h: "\<not> frame_empty df \<and> confirmation_wait E confirmation polls 0 s = (Confirmed, s1) \<and>
    fst (clear_smartsheet_data_enhanced E C s1) = ClearRaised"
  obtain s2 where c: "clear_smartsheet_data_enhanced E C s1 = (ClearRaised, s2)"
    using h by (cases "clear_smartsheet_data_enhanced E C s1") simp
  have u: "upload_process P E C True remote_columns (Some df) confirmation polls s = (FatalError, s2)"
    using h c by (simp add: upload_process_confirmed sync_steps_def)
  show "fst (upload_process P E C True remote_columns (Some df) confirmation polls s) = FatalError"
    by (simp add: u)
  have "add_log s1 = add_log s"
    using h confirmation_wait_keeps by blast
  then show "add_log (snd (upload_process P E C True remote_columns (Some df) confirmation polls s)) =
        add_log s"
    using clear_add_log [OF c] by (simp add: u)
qed

theorem clear_retry_fixed_delay_witness:
  "fst (clear_smartsheet_data_enhanced env_delete_down upload_config
          (initial_state [(7, [])] :: pynum remote_row sync_state)) = ClearRaised \<and>
   sleeps (snd (clear_smartsheet_data_enhanced env_delete_down upload_config
          (initial_state [(7, [])] :: pynum remote_row sync_state))) = [2, 2] \<and>
   length (delete_log (snd (clear_smartsheet_data_enhanced env_delete_down upload_config
          (initial_state [(7, [])] :: pynum remote_row sync_state)))) = 3 \<and>
   \<not> frame_empty df_demo \<and>
   fst (upload_process py_prims env_delete_down upload_config True remote_columns_demo
          (Some df_demo) confirm_yes 300 (initial_state [(7, [])])) = FatalError \<and>
   add_log (snd (upload_process py_prims env_delete_down upload_config True remote_columns_demo
          (Some df_demo) confirm_yes 300 (initial_state [(7, [])]))) = [] \<and>
   remote (snd (upload_process py_prims env_delete_down upload_config True remote_columns_demo
          (Some df_demo) confirm_yes 300 (initial_state [(7, [])]))) = [(7, [])]"
  using clear_retry_fixed_delay [of upload_config env_delete_down "[7]"
      "initial_state [(7, [])] :: pynum remote_row sync_state" False
      "snd (delete_retry env_delete_down upload_config [7] [0..<3] (initial_state [(7, [])]))"
      "[7]" 1 "[]" "initial_state [(7, [])]" "initial_state [(7, [])]" 0
      "snd (delete_retry env_delete_down upload_config [7] [0..<3]
             (snd (read_flag env_delete_down (initial_state [(7, [])]))))"
      "[]" df_demo confirm_yes 300 "initial_state [(7, [])]" "initial_state [(7, [])]"
      py_prims remote_columns_demo]
  by (simp add: sync_eval upload_eval batch_of_def)

theorem clear_backoff_counterexample:
  "sleeps (snd (clear_smartsheet_data_enhanced env_delete_flaky upload_config
                  (initial_state [(7, ())]))) = [2, 2] \<and>
   sleeps (snd (clear_smartsheet_data_enhanced env_delete_flaky upload_config
                  (initial_state [(7, ())]))) \<noteq>
     [retry_delay upload_config * 1, retry_delay upload_config * 2]"
  by (simp add: sync_eval)

section \<open>Properties of the upload phase\<close>



lemma add_rows_retry_Cons:
  "add_rows_retry E C rows (a # rest) st =
     (if cancel_flag E (flag_reads st) then (AddCancelled, st\<lparr>flag_reads := Suc (flag_reads st)\<rparr>)
      else if add_rows_result E (length (add_log st)) = Ok
      then (Added, add_rows_ok rows
              (st\<lparr>flag_reads := Suc (flag_reads st),
                  add_log := add_log st @ [(rows, add_rows_result E (length (add_log st)))]\<rparr>))
      else if a + 1 < max_retries C
      then add_rows_retry E C rows rest
             (sleep (retry_delay C * of_nat (a + 1))
                (st\<lparr>flag_reads := Suc (flag_reads st),
                    add_log := add_log st @ [(rows, add_rows_result E (length (add_log st)))]\<rparr>))
      else (AddRaised, st\<lparr>flag_reads := Suc (flag_reads st),
                        add_log := add_log st @ [(rows, add_rows_result E (length (add_log st)))]\<rparr>))"
  by (cases "add_rows_result E (length (add_log st))") (simp_all add: read_flag_def Let_def)


lemma upload_batches_Cons:
  "upload_batches P E C cm df tb (b # rest) st =
     (if cancel_flag E (flag_reads st) then (False, st\<lparr>flag_reads := Suc (flag_reads st)\<rparr>)
      else case build_rows P cm (all_numeric_columns (map fst df)) (batch_rows C df b) of
             Inl e \<Rightarrow> (False, st\<lparr>flag_reads := Suc (flag_reads st)\<rparr>)
           | Inr rows \<Rightarrow>
               (case add_rows_retry E C rows [0..<max_retries C]
                       (st\<lparr>flag_reads := Suc (flag_reads st)\<rparr>) of
                  (Added, st2) \<Rightarrow>
                    upload_batches P E C cm df tb rest (batch_done C (nrows df) tb b (length rows) st2)
                | (other, st2) \<Rightarrow> (False, st2)))"
  by (simp add: read_flag_def Let_def batch_rows_def batch_done_def
           split: sum.splits prod.splits add_status.splits)

lemma upload_batches_append:
  "upload_batches P E C cm df tb (xs @ ys) st =
     (case upload_batches P E C cm df tb xs st of
        (True, st1) \<Rightarrow> upload_batches P E C cm df tb ys st1
      | (False, st1) \<Rightarrow> (False, st1))"
proof (induction xs arbitrary: st)
  case Nil
  then show ?case by simp
next
  case (Cons b xs)
  show ?case
    unfolding append_Cons upload_batches_Cons
    by (simp add: Cons.IH split: sum.splits prod.splits add_status.splits)
qed

lemma add_rows_retry_exhaust:
  assumes "k < max_retries C"
    and "\<forall>i < max_retries C - k. \<not> cancel_flag E (flag_reads st + i)"
    and "\<forall>i < max_retries C - k. add_rows_result E (length (add_log st) + i) \<noteq> Ok"
  shows "\<exists>st'. add_rows_retry E C rows [k..<max_retries C] st = (AddRaised, st') \<and>
           remote st' = remote st \<and> uploaded_rows st' = uploaded_rows st \<and>
           flag_reads st' = flag_reads st + (max_retries C - k) \<and>
           (\<exists>es. add_log st' = add_log st @ es \<and> length es = max_retries C - k \<and>
                 (\<forall>e \<in> set es. fst e = rows \<and> snd e \<noteq> Ok))"
  using assms
proof (induction "max_retries C - k" arbitrary: k st)
  case 0
  then show ?case by simp
next
  case (Suc d)
  then have upt: "[k..<max_retries C] = k # [Suc k..<max_retries C]"
    by (simp add: upt_conv_Cons)
  let ?r = "add_rows_result E (length (add_log st))"
  let ?st2 = "st\<lparr>flag_reads := Suc (flag_reads st), add_log := add_log st @ [(rows, ?r)]\<rparr>"
  from Suc.prems(2) Suc.hyps(2) have nc: "\<not> cancel_flag E (flag_reads st)"
    by (metis add.right_neutral zero_less_Suc)
  from Suc.prems(3) Suc.hyps(2) have nok: "?r \<noteq> Ok"
    by (metis add.right_neutral zero_less_Suc)
  show ?case
  proof (cases "k + 1 < max_retries C")
    case False
    with Suc.prems(1) have last: "max_retries C - k = 1" by simp
    have "add_rows_retry E C rows [k..<max_retries C] st = (AddRaised, ?st2)"
      unfolding upt add_rows_retry_Cons using nc nok False by simp
    moreover have "add_log ?st2 = add_log st @ [(rows, ?r)] \<and> length [(rows, ?r)] = max_retries C - k \<and>
        (\<forall>e \<in> set [(rows, ?r)]. fst e = rows \<and> snd e \<noteq> Ok)"
      using nok last by simp
    ultimately show ?thesis using last by (intro exI [of _ ?st2]) auto
  next
    case True
    let ?st3 = "sleep (retry_delay C * of_nat (k + 1)) ?st2"
    have step: "add_rows_retry E C rows [k..<max_retries C] st =
                add_rows_retry E C rows [Suc k..<max_retries C] ?st3"
      unfolding upt add_rows_retry_Cons using nc nok True by simp
    have d: "d = max_retries C - Suc k" using Suc.hyps(2) by simp
    have lt: "Suc k < max_retries C" using True by simp
    have f3: "flag_reads ?st3 = Suc (flag_reads st)" "length (add_log ?st3) = Suc (length (add_log st))"
      "remote ?st3 = remote st" "uploaded_rows ?st3 = uploaded_rows st"
      "add_log ?st3 = add_log st @ [(rows, ?r)]"
      by (simp_all add: sleep_def)
    have c3: "\<forall>i < max_retries C - Suc k. \<not> cancel_flag E (flag_reads ?st3 + i)"
    proof (intro allI impI)
      fix i assume "i < max_retries C - Suc k"
      then have "Suc i < max_retries C - k" by simp
      with Suc.prems(2) have "\<not> cancel_flag E (flag_reads st + Suc i)" by blast
      then show "\<not> cancel_flag E (flag_reads ?st3 + i)" unfolding f3 by simp
    qed
    have a3: "\<forall>i < max_retries C - Suc k. add_rows_result E (length (add_log ?st3) + i) \<noteq> Ok"
    proof (intro allI impI)
      fix i assume "i < max_retries C - Suc k"
      then have "Suc i < max_retries C - k" by simp
      with Suc.prems(3) have "add_rows_result E (length (add_log st) + Suc i) \<noteq> Ok" by blast
      then show "add_rows_result E (length (add_log ?st3) + i) \<noteq> Ok" unfolding f3 by simp
    qed
    from Suc.hyps(1) [OF d lt c3 a3] obtain st' es where
      r: "add_rows_retry E C rows [Suc k..<max_retries C] ?st3 = (AddRaised, st')"
      and p: "remote st' = remote ?st3" "uploaded_rows st' = uploaded_rows ?st3"
        "flag_reads st' = flag_reads ?st3 + (max_retries C - Suc k)"
      and es: "add_log st' = add_log ?st3 @ es" "length es = max_retries C - Suc k"
        "\<forall>e \<in> set es. fst e = rows \<and> snd e \<noteq> Ok"
      by blast
    have e2: "add_log st' = add_log st @ ((rows, ?r) # es) \<and> length ((rows, ?r) # es) = max_retries C - k \<and>
        (\<forall>e \<in> set ((rows, ?r) # es). fst e = rows \<and> snd e \<noteq> Ok)"
      using es nok lt unfolding f3 by auto
    have p2: "remote st' = remote st" "uploaded_rows st' = uploaded_rows st"
      "flag_reads st' = flag_reads st + (max_retries C - k)"
      using p lt unfolding f3 by auto
    have main: "add_rows_retry E C rows [k..<max_retries C] st = (AddRaised, st')"
      using step r by simp
    have ex: "\<exists>es. add_log st' = add_log st @ es \<and> length es = max_retries C - k \<and>
                 (\<forall>e \<in> set es. fst e = rows \<and> snd e \<noteq> Ok)"
      using e2 by blast
    from main p2 ex show ?thesis by blast
  qed
qed

lemma upt_split:
  assumes "b < tb"
  shows "[0..<tb] = [0..<b] @ b # [Suc b..<tb]"
proof -
  have "[0..<b + (tb - b)] = [0..<b] @ [b..<b + (tb - b)]"
    by (rule upt_add_eq_append) simp
  moreover have "[b..<tb] = b # [Suc b..<tb]"
    using assms by (rule upt_conv_Cons)
  ultimately show ?thesis using assms by simp
qed

lemma batch_index_nrows:
  assumes "0 < batch_size C" and "b < (nrows df + batch_size C - 1) div batch_size C"
  shows "0 < nrows df"
proof (rule ccontr)
  assume "\<not> 0 < nrows df"
  then have "(nrows df + batch_size C - 1) div batch_size C = 0"
    using assms(1) by simp
  with assms(2) show False by simp
qed

lemma upload_process_steps:
  assumes "0 < nrows df"
    and "confirmation_wait E confirmation polls 0 s0 = (Confirmed, sc)"
    and "(if overwrite then clear_smartsheet_data_enhanced E C sc else (ClearNothing, sc)) = (cs, st)"
    and "cs \<noteq> ClearRaised"
    and "upload_data_enhanced P E C rc df st = (ok, st2)"
  shows "upload_process P E C overwrite rc (Some df) confirmation polls s0 =
         report E ok (nrows df) st2"
proof -
  from assms(1) have ne: "\<not> frame_empty df"
    by (auto simp: frame_empty_def nrows_def)
  have "sync_steps P E C overwrite rc df sc = report E ok (nrows df) st2"
    unfolding sync_steps_def assms(3) using assms(4,5) by (cases cs) simp_all
  with ne assms(2) show ?thesis
    by (simp add: upload_process_confirmed)
qed

text \<open>
  C6: the worker has a confirmed, non-empty table and has passed the clearing step;
  batches \<open>0..b-1\<close> were uploaded and left the state \<open>st1\<close>; the rows of batch \<open>b\<close> are
  \<open>rows\<close>; nobody cancels, and each of the \<open>max_retries\<close> calls of \<open>add_rows\<close> for
  batch \<open>b\<close> fails. Then the upload returns \<open>False\<close> and the worker reports \<open>Failure\<close>;
  the calls logged after \<open>st1\<close> are the \<open>max_retries\<close> failed submissions of batch \<open>b\<close>
  and nothing else, so no later batch is submitted; and the remote sheet is the one the
  earlier batches left behind: their rows are still there.
\<close>

theorem upload_retry_exhaustion:
  assumes "0 < batch_size C"
    and "b < (nrows df + batch_size C - 1) div batch_size C"
    and "confirmation_wait E confirmation polls 0 s0 = (Confirmed, sc)"
    and "(if overwrite then clear_smartsheet_data_enhanced E C sc else (ClearNothing, sc)) = (cs, st)"
    and "cs \<noteq> ClearRaised"
    and "upload_batches P E C (column_map rc) df ((nrows df + batch_size C - 1) div batch_size C)
           [0..<b] (st\<lparr>uploaded_rows := 0\<rparr>) = (True, st1)"
    and "build_rows P (column_map rc) (all_numeric_columns (map fst df)) (batch_rows C df b) = Inr rows"
    and "\<forall>i \<le> max_retries C + 1. \<not> cancel_flag E (flag_reads st1 + i)"
    and "\<forall>i < max_retries C. add_rows_result E (length (add_log st1) + i) \<noteq> Ok"
  shows "\<exists>st2. upload_data_enhanced P E C rc df st = (False, st2) \<and>
           remote st2 = remote st1 \<and> uploaded_rows st2 = uploaded_rows st1 \<and>
           (\<exists>es. add_log st2 = add_log st1 @ es \<and> length es = max_retries C \<and>
                 (\<forall>e \<in> set es. fst e = rows \<and> snd e \<noteq> Ok)) \<and>
           upload_process P E C overwrite rc (Some df) confirmation polls s0 =
             (Failure, st2\<lparr>flag_reads := Suc (flag_reads st2)\<rparr>)"
proof -
  let ?tb = "(nrows df + batch_size C - 1) div batch_size C"
  let ?cm = "column_map rc"
  let ?s1 = "st1\<lparr>flag_reads := Suc (flag_reads st1)\<rparr>"
  have nc0: "\<not> cancel_flag E (flag_reads st1)"
    using assms(8) by (metis add.right_neutral le0)
  have "\<exists>r st2 es. add_rows_retry E C rows [0..<max_retries C] ?s1 = (r, st2) \<and> r \<noteq> Added \<and>
      remote st2 = remote st1 \<and> uploaded_rows st2 = uploaded_rows st1 \<and>
      flag_reads st2 = flag_reads st1 + 1 + max_retries C \<and>
      add_log st2 = add_log st1 @ es \<and> length es = max_retries C \<and>
      (\<forall>e \<in> set es. fst e = rows \<and> snd e \<noteq> Ok)"
  proof (cases "max_retries C = 0")
    case True
    then have "add_rows_retry E C rows [0..<max_retries C] ?s1 = (AddNotTried, ?s1)"
      by simp
    with True show ?thesis by simp
  next
    case False
    then have m: "0 < max_retries C" by simp
    have c: "\<forall>i < max_retries C - 0. \<not> cancel_flag E (flag_reads ?s1 + i)"
    proof (intro allI impI)
      fix i assume "i < max_retries C - 0"
      then have "Suc i \<le> max_retries C + 1" by simp
      with assms(8) have "\<not> cancel_flag E (flag_reads st1 + Suc i)" by blast
      then show "\<not> cancel_flag E (flag_reads ?s1 + i)" by simp
    qed
    have a: "\<forall>i < max_retries C - 0. add_rows_result E (length (add_log ?s1) + i) \<noteq> Ok"
      using assms(9) by simp
    from add_rows_retry_exhaust [OF m c a, of rows] show ?thesis by auto
  qed
  then obtain r st2 es where
    r: "add_rows_retry E C rows [0..<max_retries C] ?s1 = (r, st2)" "r \<noteq> Added"
    and p: "remote st2 = remote st1" "uploaded_rows st2 = uploaded_rows st1"
      "flag_reads st2 = flag_reads st1 + 1 + max_retries C"
    and es: "add_log st2 = add_log st1 @ es" "length es = max_retries C"
      "\<forall>e \<in> set es. fst e = rows \<and> snd e \<noteq> Ok"
    by blast
  have one: "upload_batches P E C ?cm df ?tb (b # [Suc b..<?tb]) st1 = (False, st2)"
    unfolding upload_batches_Cons using nc0 assms(7) r by (cases r) simp_all
  have "upload_batches P E C ?cm df ?tb [0..<?tb] (st\<lparr>uploaded_rows := 0\<rparr>) = (False, st2)"
    by (subst upt_split [OF assms(2)], subst upload_batches_append)
       (simp only: assms(6) prod.case bool.case one)
  then have u: "upload_data_enhanced P E C rc df st = (False, st2)"
    using assms(1) by (simp add: upload_data_enhanced_def Let_def del: upload_batches.simps)
  have nc2: "\<not> cancel_flag E (flag_reads st2)"
    using assms(8) p(3) by (metis add.assoc add.commute le_refl)
  have "upload_process P E C overwrite rc (Some df) confirmation polls s0 =
        (Failure, st2\<lparr>flag_reads := Suc (flag_reads st2)\<rparr>)"
    using upload_process_steps [OF batch_index_nrows [OF assms(1,2)] assms(3,4,5) u] nc2
    by (simp add: report_def read_flag_def)
  with u p es show ?thesis by blast
qed

theorem upload_retry_exhaustion_witness:
  "upload_process py_prims env_add_down_after_first config_small False remote_columns_demo
          (Some df_demo) confirm_yes 300 (initial_state []) =
     (Failure,
      \<lparr>remote = [(0, [(101, RStr ''A1'')])], next_id = 1, flag_reads = 6, get_calls = 0,
         delete_log = [],
         add_log = [([[(101, RStr ''A1'')]], Ok), ([[(101, RStr ''B2'')]], ServiceError),
                    ([[(101, RStr ''B2'')]], ServiceError)],
         sleeps = [1 / 2, 2], uploaded_rows = 1, progress = [(1, 3)]\<rparr>)"
proof -
  let ?st1 = "\<lparr>remote = [(0, [(101 :: nat, RStr ''A1'' :: pynum remote_value)])], next_id = 1,
                flag_reads = 2, get_calls = 0, delete_log = [],
                add_log = [([[(101, RStr ''A1'')]], Ok)], sleeps = [1 / 2],
                uploaded_rows = 1, progress = [(1, 3)]\<rparr>"
  have h1: "0 < batch_size config_small"
    by (simp add: config_small_def)
  have h2: "1 < (nrows df_demo + batch_size config_small - 1) div batch_size config_small"
    by (simp add: config_small_def nrows_def col_len_def df_demo_def)
  have h3: "confirmation_wait env_add_down_after_first confirm_yes 300 0 (initial_state []) =
            (Confirmed, initial_state [] :: pynum remote_row sync_state)"
    by (simp add: confirmation_wait_numeral confirm_yes_def)
  have h4: "(if False then clear_smartsheet_data_enhanced env_add_down_after_first config_small
                (initial_state [])
             else (ClearNothing, initial_state [])) =
            (ClearNothing, initial_state [] :: pynum remote_row sync_state)"
    by simp
  have h5: "ClearNothing \<noteq> ClearRaised"
    by simp
  have h6: "upload_batches py_prims env_add_down_after_first config_small
              (column_map remote_columns_demo) df_demo
              ((nrows df_demo + batch_size config_small - 1) div batch_size config_small)
              [0..<1] ((initial_state []) \<lparr>uploaded_rows := 0\<rparr>) = (True, ?st1)"
    by (simp add: upload_eval sync_eval num_eval batch_rows_def)
  have h7: "build_rows py_prims (column_map remote_columns_demo)
              (all_numeric_columns (map fst df_demo)) (batch_rows config_small df_demo 1) =
            Inr [[(101, RStr ''B2'')]]"
    by (simp add: upload_eval sync_eval num_eval batch_rows_def)
  have h8: "\<forall>i \<le> max_retries config_small + 1.
              \<not> cancel_flag env_add_down_after_first (flag_reads ?st1 + i)"
    by (simp add: env_add_down_after_first_def env_ok_def)
  have h9: "\<forall>i < max_retries config_small.
              add_rows_result env_add_down_after_first (length (add_log ?st1) + i) \<noteq> Ok"
    by (simp add: env_add_down_after_first_def env_ok_def)
  from upload_retry_exhaustion [OF h1 h2 h3 h4 h5 h6 h7 h8 h9]
  obtain st2 where
    u: "upload_data_enhanced py_prims env_add_down_after_first config_small remote_columns_demo
          df_demo (initial_state []) = (False, st2)"
    and w: "upload_process py_prims env_add_down_after_first config_small False remote_columns_demo
          (Some df_demo) confirm_yes 300 (initial_state []) =
          (Failure, st2\<lparr>flag_reads := Suc (flag_reads st2)\<rparr>)"
    by blast
  have e: "upload_data_enhanced py_prims env_add_down_after_first config_small remote_columns_demo
          df_demo (initial_state []) =
        (False,
         \<lparr>remote = [(0, [(101, RStr ''A1'')])], next_id = 1, flag_reads = 5, get_calls = 0,
            delete_log = [],
            add_log = [([[(101, RStr ''A1'')]], Ok), ([[(101, RStr ''B2'')]], ServiceError),
                       ([[(101, RStr ''B2'')]], ServiceError)],
            sleeps = [1 / 2, 2], uploaded_rows = 1, progress = [(1, 3)]\<rparr>)"
    by (simp add: upload_eval sync_eval num_eval batch_rows_def)
  have s: "st2 =
         \<lparr>remote = [(0, [(101, RStr ''A1'')])], next_id = 1, flag_reads = 5, get_calls = 0,
            delete_log = [],
            add_log = [([[(101, RStr ''A1'')]], Ok), ([[(101, RStr ''B2'')]], ServiceError),
                       ([[(101, RStr ''B2'')]], ServiceError)],
            sleeps = [1 / 2, 2], uploaded_rows = 1, progress = [(1, 3)]\<rparr>"
    using u unfolding e by simp
  show ?thesis unfolding w s by simp
qed

text \<open>
  C7: the worker has a confirmed, non-empty table and has passed the clearing step;
  batches \<open>0..b-1\<close> were uploaded and left the state \<open>st1\<close>, and the flag is set when the
  checkpoint before batch \<open>b\<close> reads it (once set, the flag stays set until the next
  run). Then the upload returns at that checkpoint, changing nothing but the count of
  flag reads: no row of batch \<open>b\<close> or of a later batch is prepared or submitted and the
  remote sheet keeps the rows of the earlier batches; and the worker reports
  \<open>Cancelled\<close>, not \<open>Failure\<close>. Inside the retry loop, an attempt that finds the flag set
  returns without calling \<open>add_rows\<close> and without sleeping, whatever attempts are left;
  and whatever the upload returned, the report is \<open>Cancelled\<close> when the flag is set.
\<close>

theorem upload_cancellation:
  assumes "0 < batch_size C"
    and "b < (nrows df + batch_size C - 1) div batch_size C"
    and "confirmation_wait E confirmation polls 0 s0 = (Confirmed, sc)"
    and "(if overwrite then clear_smartsheet_data_enhanced E C sc else (ClearNothing, sc)) = (cs, st)"
    and "cs \<noteq> ClearRaised"
    and "upload_batches P E C (column_map rc) df ((nrows df + batch_size C - 1) div batch_size C)
           [0..<b] (st\<lparr>uploaded_rows := 0\<rparr>) = (True, st1)"
    and "cancel_flag E (flag_reads st1)"
    and "\<forall>m n. m \<le> n \<longrightarrow> cancel_flag E m \<longrightarrow> cancel_flag E n"
  shows "upload_data_enhanced P E C rc df st = (False, st1\<lparr>flag_reads := Suc (flag_reads st1)\<rparr>) \<and>
         upload_process P E C overwrite rc (Some df) confirmation polls s0 =
           (Cancelled, st1\<lparr>flag_reads := Suc (Suc (flag_reads st1))\<rparr>) \<and>
         (cancel_flag E (flag_reads s) \<longrightarrow>
           add_rows_retry E C rows (a # rest) s = (AddCancelled, s\<lparr>flag_reads := Suc (flag_reads s)\<rparr>)) \<and>
         (cancel_flag E (flag_reads s2) \<longrightarrow> fst (report E ok n s2) = Cancelled)"
proof (intro conjI)
  let ?tb = "(nrows df + batch_size C - 1) div batch_size C"
  have one: "upload_batches P E C (column_map rc) df ?tb (b # [Suc b..<?tb]) st1 =
             (False, st1\<lparr>flag_reads := Suc (flag_reads st1)\<rparr>)"
    unfolding upload_batches_Cons using assms(7) by simp
  have "upload_batches P E C (column_map rc) df ?tb [0..<?tb] (st\<lparr>uploaded_rows := 0\<rparr>) =
        (False, st1\<lparr>flag_reads := Suc (flag_reads st1)\<rparr>)"
    by (subst upt_split [OF assms(2)], subst upload_batches_append)
       (simp only: assms(6) prod.case bool.case one)
  then show u: "upload_data_enhanced P E C rc df st = (False, st1\<lparr>flag_reads := Suc (flag_reads st1)\<rparr>)"
    using assms(1) by (simp add: upload_data_enhanced_def Let_def del: upload_batches.simps)
  have "cancel_flag E (Suc (flag_reads st1))"
    using assms(7,8) by (meson le_SucI le_refl)
  then show "upload_process P E C overwrite rc (Some df) confirmation polls s0 =
           (Cancelled, st1\<lparr>flag_reads := Suc (Suc (flag_reads st1))\<rparr>)"
    using upload_process_steps [OF batch_index_nrows [OF assms(1,2)] assms(3,4,5) u]
    by (simp add: report_def read_flag_def)
  show "cancel_flag E (flag_reads s) \<longrightarrow>
           add_rows_retry E C rows (a # rest) s = (AddCancelled, s\<lparr>flag_reads := Suc (flag_reads s)\<rparr>)"
    by (simp add: add_rows_retry_Cons del: add_rows_retry.simps)
  show "cancel_flag E (flag_reads s2) \<longrightarrow> fst (report E ok n s2) = Cancelled"
  proof
    assume h: "cancel_flag E (flag_reads s2)"
    then have "cancel_flag E (Suc (flag_reads s2))"
      using assms(8) by (meson le_SucI le_refl)
    with h show "fst (report E ok n s2) = Cancelled"
      by (cases ok) (simp_all add: report_def read_flag_def)
  qed
qed

theorem upload_cancellation_witness:
  "upload_process py_prims env_cancel_after_first config_small False remote_columns_demo
          (Some df_demo) confirm_yes 300 (initial_state []) =
     (Cancelled,
      \<lparr>remote = [(0, [(101, RStr ''A1'')])], next_id = 1, flag_reads = 4, get_calls = 0,
         delete_log = [], add_log = [([[(101, RStr ''A1'')]], Ok)], sleeps = [1 / 2],
         uploaded_rows = 1, progress = [(1, 3)]\<rparr>)"
proof -
  let ?st1 = "\<lparr>remote = [(0, [(101 :: nat, RStr ''A1'' :: pynum remote_value)])], next_id = 1,
                flag_reads = 2, get_calls = 0, delete_log = [],
                add_log = [([[(101, RStr ''A1'')]], Ok)], sleeps = [1 / 2],
                uploaded_rows = 1, progress = [(1, 3)]\<rparr>"
  have h1: "0 < batch_size config_small"
    by (simp add: config_small_def)
  have h2: "1 < (nrows df_demo + batch_size config_small - 1) div batch_size config_small"
    by (simp add: config_small_def nrows_def col_len_def df_demo_def)
  have h3: "confirmation_wait env_cancel_after_first confirm_yes 300 0 (initial_state []) =
            (Confirmed, initial_state [] :: pynum remote_row sync_state)"
    by (simp add: confirmation_wait_numeral confirm_yes_def)
  have h4: "(if False then clear_smartsheet_data_enhanced env_cancel_after_first config_small
                (initial_state [])
             else (ClearNothing, initial_state [])) =
            (ClearNothing, initial_state [] :: pynum remote_row sync_state)"
    by simp
  have h5: "ClearNothing \<noteq> ClearRaised"
    by simp
  have h6: "upload_batches py_prims env_cancel_after_first config_small
              (column_map remote_columns_demo) df_demo
              ((nrows df_demo + batch_size config_small - 1) div batch_size config_small)
              [0..<1] ((initial_state []) \<lparr>uploaded_rows := 0\<rparr>) = (True, ?st1)"
    by (simp add: upload_eval sync_eval num_eval batch_rows_def)
  have h7: "cancel_flag env_cancel_after_first (flag_reads ?st1)"
    by (simp add: env_cancel_after_first_def env_ok_def)
  have h8: "\<forall>m n. m \<le> n \<longrightarrow> cancel_flag env_cancel_after_first m \<longrightarrow>
              cancel_flag env_cancel_after_first n"
    by (simp add: env_cancel_after_first_def env_ok_def)
  from upload_cancellation [OF h1 h2 h3 h4 h5 h6 h7 h8]
  have "upload_process py_prims env_cancel_after_first config_small False remote_columns_demo
          (Some df_demo) confirm_yes 300 (initial_state []) =
        (Cancelled, ?st1\<lparr>flag_reads := Suc (Suc (flag_reads ?st1))\<rparr>)"
    by (rule conjunct1 [OF conjunct2])
  then show ?thesis by simp
qed






end
